theory Spec2Isabelle
  imports Complex_Main "HOL-Library.AList"
begin

section \<open>Values shared by the workflows and the activities\<close>

text \<open>
  Python dictionaries with a known set of keys are records whose fields are options
  (\<open>None\<close>: the key is absent or holds Python's \<open>None\<close>, which \<open>dict.get\<close> does not
  tell apart). Free-form payloads written to the event log are JSON values. An amount is
  the double that \<open>float\<close> returned, a real number that the code stores and returns and
  never computes with. A string is a list of code points below 256.
\<close>

datatype json =
    JNull
  | JStr string
  | JNum real
  | JList "json list"
  | JObj "(string \<times> json) list"

type_synonym item = "string \<times> nat"

record order =
  o_order_id :: "string option"
  o_items :: "item list option"
  o_status :: "string option"
  o_error :: "string option"

text \<open>The empty dictionary \<open>{}\<close> as an order.\<close>

definition empty_order :: order where
  "empty_order = \<lparr>o_order_id = None, o_items = None, o_status = None, o_error = None\<rparr>"

text \<open>\<open>{"order_id": order_id, "items": []}\<close> (workflows.py, line 72).\<close>

definition default_order :: "string \<Rightarrow> order" where
  "default_order oid = \<lparr>o_order_id = Some oid, o_items = Some [], o_status = None, o_error = None\<rparr>"

text \<open>
  The three dictionaries that \<open>charge_payment_activity\<close> returns (activities.py, lines
  60, 75, 88 and 104), one constructor for each shape.
\<close>

datatype charge_result =
    Charged real
  | AlreadyCharged real
  | Failed "string option" string

fun result_status :: "charge_result \<Rightarrow> string" where
  "result_status (Charged a) = ''charged''"
| "result_status (AlreadyCharged a) = ''already_charged''"
| "result_status (Failed p e) = ''failed''"

text \<open>Truthiness of an optional string, and \<open>x or d\<close> on it.\<close>

fun truthy :: "string option \<Rightarrow> bool" where
  "truthy None = False"
| "truthy (Some s) = (s \<noteq> [])"

fun py_or :: "string option \<Rightarrow> string \<Rightarrow> string" where
  "py_or None d = d"
| "py_or (Some s) d = (if s = [] then d else s)"

section \<open>Timeout classification (workflows.py, \<open>_is_timeout_exception\<close>)\<close>

text \<open>
  An exception is represented by \<open>str(exc)\<close>. \<open>str.lower\<close> maps the upper-case
  letters below 256 (\<open>A\<close> to \<open>Z\<close>, and 192 to 222 without the multiplication sign 215)
  32 places up; \<open>needle in haystack\<close> is \<open>contains\<close>.
\<close>

definition lower_char :: "char \<Rightarrow> char" where
  "lower_char c =
     (let n = (of_char c :: nat)
      in if (65 \<le> n \<and> n \<le> 90) \<or> (192 \<le> n \<and> n \<le> 222 \<and> n \<noteq> 215) then char_of (n + 32)
         else c)"

definition lower :: "string \<Rightarrow> string" where
  "lower s = map lower_char s"

fun starts_with :: "string \<Rightarrow> string \<Rightarrow> bool" where
  "starts_with [] hay = True"
| "starts_with (p # ps) [] = False"
| "starts_with (p # ps) (c # cs) = (p = c \<and> starts_with ps cs)"

fun contains :: "string \<Rightarrow> string \<Rightarrow> bool" where
  "contains needle [] = (needle = [])"
| "contains needle (c # cs) = (starts_with needle (c # cs) \<or> contains needle cs)"

definition is_timeout_exception :: "string \<Rightarrow> bool" where
  "is_timeout_exception exc =
     (let msg = lower exc in contains ''timed out'' msg \<or> contains ''timeout'' msg)"

section \<open>OrderWorkflow: state, signals and query\<close>

text \<open>The approval window \<open>MANUAL_REVIEW_WINDOW = timedelta(seconds=10)\<close>, in milliseconds.\<close>

definition MANUAL_REVIEW_WINDOW :: nat where
  "MANUAL_REVIEW_WINDOW = 10000"

record order_workflow =
  order_id :: "string option"
  current_step :: string
  approved :: bool
  cancelled :: bool
  last_error :: "string option"
  address :: "json option"

text \<open>\<open>OrderWorkflow.__init__\<close>; the attribute \<open>_address\<close> does not exist yet.\<close>

definition init_workflow :: order_workflow where
  "init_workflow =
     \<lparr>order_id = None, current_step = ''initialized'', approved = False, cancelled = False,
      last_error = None, address = None\<rparr>"

datatype signal =
    SigCancelOrder string
  | SigUpdateAddress json
  | SigApprove
  | SigDispatchFailed string

definition CancelOrder :: "string \<Rightarrow> order_workflow \<Rightarrow> order_workflow" where
  "CancelOrder reason w = w\<lparr>cancelled := True\<rparr>"

definition UpdateAddress :: "json \<Rightarrow> order_workflow \<Rightarrow> order_workflow" where
  "UpdateAddress a w = w\<lparr>address := Some a\<rparr>"

definition Approve :: "order_workflow \<Rightarrow> order_workflow" where
  "Approve w = w\<lparr>approved := True\<rparr>"

definition DispatchFailed :: "string \<Rightarrow> order_workflow \<Rightarrow> order_workflow" where
  "DispatchFailed reason w = w\<lparr>last_error := Some (''DispatchFailed: '' @ reason)\<rparr>"

fun handle :: "signal \<Rightarrow> order_workflow \<Rightarrow> order_workflow" where
  "handle (SigCancelOrder reason) w = CancelOrder reason w"
| "handle (SigUpdateAddress a) w = UpdateAddress a w"
| "handle SigApprove w = Approve w"
| "handle (SigDispatchFailed reason) w = DispatchFailed reason w"

record status_snapshot =
  s_order_id :: "string option"
  s_step :: string
  s_last_error :: "string option"

definition status :: "order_workflow \<Rightarrow> status_snapshot" where
  "status w = \<lparr>s_order_id = order_id w, s_step = current_step w, s_last_error = last_error w\<rparr>"

text \<open>The terminal steps of the saga.\<close>

definition terminal_steps :: "string list" where
  "terminal_steps =
     [''CANCELLED'', ''AWAITING_APPROVAL_TIMEOUT'', ''VALIDATION_FAILED'', ''CHARGE_FAILED'',
      ''SHIPPING_START_FAILED'', ''COMPLETED'', ''FAILED'']"

definition terminal :: "order_workflow \<Rightarrow> bool" where
  "terminal w = (current_step w \<in> set terminal_steps)"

section \<open>The execution substrate as seen by \<open>OrderWorkflow.run\<close>\<close>

text \<open>
  \<open>workflow.execute_activity\<close> and \<open>workflow.start_child_workflow\<close> are calls into the
  durable-execution library. Each is a parameter of the model: a function from the
  arguments the workflow passes to the outcome the workflow observes once the retry policy
  is exhausted, \<open>Inl (str exc)\<close> when the call raises and \<open>Inr v\<close> when it returns
  \<open>v\<close>. While the workflow is suspended in such a call, signal handlers may run; the
  signals delivered during each suspension are part of the environment too.

  \<open>workflow.wait_condition(cond, timeout)\<close> is modelled on a logical clock in
  milliseconds. The environment lists the deliveries during the wait, each with the time
  elapsed since the previous one: the signals of one workflow task, whose handlers all run
  before the condition is looked at again. A delivery in the task in which the timer
  fires is handled before the timeout is raised. The exception raised on timeout is
  the \<open>TimeoutError\<close> that \<open>_wait_for_approval_or_cancel\<close> catches (one class from Python
  3.11 on); the wait raises no other \<open>Exception\<close>. Cancellation of the workflow itself
  (\<open>CancelledError\<close>, which no \<open>except Exception\<close> catches) is outside the model.
\<close>

record env =
  workflow_id :: string
  receive_order_activity :: "string \<Rightarrow> string + order"
  validate_order_activity :: "order \<Rightarrow> string + bool"
  charge_payment :: "order \<Rightarrow> string \<Rightarrow> string + charge_result"
  start_child_workflow :: "order \<Rightarrow> string \<Rightarrow> string + unit"
  signals_during_receive :: "signal list"
  signals_during_validate :: "signal list"
  approval_arrivals :: "(nat \<times> signal list) list"
  signals_during_charge :: "signal list"
  signals_during_spawn :: "signal list"

text \<open>
  What a run does that is visible from outside, in order: every assignment to
  \<open>current_step\<close> and every call into the substrate with its arguments.
\<close>

datatype trace_event =
    Step string
  | ExecReceive string
  | ExecValidate order
  | ExecCharge order string
  | StartShipping order string string

record saga =
  wf :: order_workflow
  trace :: "trace_event list"

definition set_step :: "string \<Rightarrow> saga \<Rightarrow> saga" where
  "set_step s c = c\<lparr>wf := (wf c)\<lparr>current_step := s\<rparr>, trace := trace c @ [Step s]\<rparr>"

definition set_error :: "string option \<Rightarrow> saga \<Rightarrow> saga" where
  "set_error e c = c\<lparr>wf := (wf c)\<lparr>last_error := e\<rparr>\<rparr>"

definition call :: "trace_event \<Rightarrow> saga \<Rightarrow> saga" where
  "call ev c = c\<lparr>trace := trace c @ [ev]\<rparr>"

definition deliver :: "signal list \<Rightarrow> saga \<Rightarrow> saga" where
  "deliver sigs c = c\<lparr>wf := fold handle sigs (wf c)\<rparr>"

datatype wait_outcome = Resolved | TimedOut

text \<open>
  \<open>wait_condition (lambda: self._approved or self._cancelled, timeout)\<close>: returns at once
  when the condition holds, otherwise after the first delivery that makes it hold, and
  raises \<open>TimeoutError\<close> when the budget is used up before that. The second
  component of the result is the time spent waiting.
\<close>

fun wait_condition ::
  "order_workflow \<Rightarrow> nat \<Rightarrow> (nat \<times> signal list) list \<Rightarrow> wait_outcome \<times> nat \<times> order_workflow" where
  "wait_condition w left [] =
     (if approved w \<or> cancelled w then (Resolved, 0, w) else (TimedOut, left, w))"
| "wait_condition w left ((gap, sigs) # rest) =
     (if approved w \<or> cancelled w then (Resolved, 0, w)
      else if left < gap then (TimedOut, left, w)
      else (case wait_condition (fold handle sigs w) (left - gap) rest of
              (out, t, w') \<Rightarrow> (out, gap + t, w')))"

section \<open>\<open>OrderWorkflow.run\<close>\<close>

record wf_result =
  r_status :: string
  r_order_id :: string
  r_error :: "string option"
  r_payment :: "charge_result option"

text \<open>Lines 57 to 72: the receive step.\<close>

definition receive_step :: "env \<Rightarrow> string \<Rightarrow> saga \<Rightarrow> order \<times> saga" where
  "receive_step e oid c =
     (let c1 = set_step ''RECEIVING_ORDER'' c;
          c2 = deliver (signals_during_receive e) (call (ExecReceive oid) c1)
      in case receive_order_activity e oid of
           Inr ord \<Rightarrow> (ord, c2)
         | Inl exc \<Rightarrow>
             (default_order oid,
              set_error (Some (if is_timeout_exception exc
                               then ''Activity task timed out during RECEIVE''
                               else ''Receive error: '' @ exc)) c2))"

text \<open>Lines 74 to 90: the validate step.\<close>

definition validate_step :: "env \<Rightarrow> order \<Rightarrow> saga \<Rightarrow> bool \<times> saga" where
  "validate_step e ord c =
     (let c1 = set_step ''VALIDATING_ORDER'' c;
          c2 = deliver (signals_during_validate e) (call (ExecValidate ord) c1)
      in case validate_order_activity e ord of
           Inr valid \<Rightarrow> (valid, c2)
         | Inl exc \<Rightarrow>
             (False,
              set_error (Some (if is_timeout_exception exc
                               then ''Activity task timed out during VALIDATION''
                               else ''Validation error: '' @ exc)) c2))"

text \<open>
  Lines 92 and 93: the approval gate. The result is the saga when
  \<open>_wait_for_approval_or_cancel\<close> is left, with how it was left and the time spent in it.
\<close>

definition approval_gate :: "env \<Rightarrow> saga \<Rightarrow> wait_outcome \<times> nat \<times> saga" where
  "approval_gate e c =
     (let c1 = set_step ''WAITING_FOR_APPROVAL'' c
      in case wait_condition (wf c1) MANUAL_REVIEW_WINDOW (approval_arrivals e) of
           (out, t, w) \<Rightarrow> (out, t, c1\<lparr>wf := w\<rparr>))"

record gate_state =
  g_order :: order
  g_valid :: bool
  g_outcome :: wait_outcome
  g_waited :: nat
  g_saga :: saga

text \<open>The run up to the moment the approval wait is left (lines 54 to 93).\<close>

definition at_gate :: "env \<Rightarrow> string \<Rightarrow> gate_state" where
  "at_gate e oid =
     (let c0 = \<lparr>wf = init_workflow\<lparr>order_id := Some oid\<rparr>, trace = []\<rparr>
      in case receive_step e oid c0 of
           (ord, c1) \<Rightarrow>
             (case validate_step e ord c1 of
                (valid, c2) \<Rightarrow>
                  (case approval_gate e c2 of
                     (out, t, c3) \<Rightarrow>
                       \<lparr>g_order = ord, g_valid = valid, g_outcome = out, g_waited = t,
                        g_saga = c3\<rparr>)))"

text \<open>Lines 108 to 147: charge, spawn the shipping child, complete.\<close>

definition charge_and_ship :: "env \<Rightarrow> string \<Rightarrow> string \<Rightarrow> order \<Rightarrow> saga \<Rightarrow> wf_result \<times> saga" where
  "charge_and_ship e oid pid ord c =
     (let c1 = set_step ''CHARGING_PAYMENT'' c;
          c2 = deliver (signals_during_charge e) (call (ExecCharge ord pid) c1)
      in case charge_payment e ord pid of
           Inl exc \<Rightarrow>
             (let c3 = set_error (Some (if is_timeout_exception exc
                                        then ''Activity task timed out during CHARGE''
                                        else ''Charge error: '' @ exc)) c2;
                  c4 = set_step ''CHARGE_FAILED'' c3
              in (\<lparr>r_status = ''payment_failed'', r_order_id = oid,
                   r_error = last_error (wf c4), r_payment = None\<rparr>, c4))
         | Inr payment_result \<Rightarrow>
             (let c3 = set_step ''STARTING_SHIPPING'' c2;
                  wid = workflow_id e;
                  c4 = deliver (signals_during_spawn e)
                         (call (StartShipping ord wid (wid @ ''-shipping'')) c3)
              in case start_child_workflow e ord wid of
                   Inl exc \<Rightarrow>
                     (let c5 = set_error
                                 (Some (''Failed to start shipping child workflow: '' @ exc)) c4;
                          c6 = set_step ''SHIPPING_START_FAILED'' c5
                      in (\<lparr>r_status = ''shipping_start_failed'', r_order_id = oid,
                           r_error = last_error (wf c6), r_payment = None\<rparr>, c6))
                 | Inr u \<Rightarrow>
                     (let c5 = set_step ''COMPLETED'' c4;
                          c6 = set_error None c5
                      in (\<lparr>r_status = ''success'', r_order_id = oid, r_error = None,
                           r_payment = Some payment_result\<rparr>, c6))))"

text \<open>
  Lines 95 to 106: what the run does once the wait is left. The result of a run is
  \<open>Inr r\<close> when \<open>run\<close> returns the dictionary \<open>r\<close>; \<open>Inl exc\<close> stands for an exception
  that leaves \<open>run\<close> through the handler of lines 149 to 154, which sets the step
  \<open>FAILED\<close>. No behaviour of the model reaches that handler: every call that can raise
  an \<open>Exception\<close> sits in a \<open>try\<close> of its own.
\<close>

definition after_gate :: "env \<Rightarrow> string \<Rightarrow> string \<Rightarrow> gate_state \<Rightarrow> (string + wf_result) \<times> saga" where
  "after_gate e oid pid g =
     (let c = g_saga g
      in if cancelled (wf c) then
           (Inr \<lparr>r_status = ''cancelled'', r_order_id = oid, r_error = None,
                 r_payment = None\<rparr>,
            set_step ''CANCELLED'' c)
         else if \<not> approved (wf c) then
           (let c1 = set_error (Some (py_or (last_error (wf c)) ''Manual review timed out'')) c;
                c2 = set_step ''AWAITING_APPROVAL_TIMEOUT'' c1
            in (Inr \<lparr>r_status = ''manual_review_timeout'', r_order_id = oid,
                     r_error = last_error (wf c2), r_payment = None\<rparr>, c2))
         else if \<not> g_valid g then
           (let c1 = set_step ''VALIDATION_FAILED'' c;
                c2 = set_error (Some (py_or (last_error (wf c1)) ''Order validation failed'')) c1
            in (Inr \<lparr>r_status = ''validation_failed'', r_order_id = oid,
                     r_error = last_error (wf c2), r_payment = None\<rparr>, c2))
         else (case charge_and_ship e oid pid (g_order g) c of (r, c') \<Rightarrow> (Inr r, c')))"

record run_result =
  final :: order_workflow
  result :: "string + wf_result"
  steps :: "trace_event list"
  waited :: nat

definition run :: "env \<Rightarrow> string \<Rightarrow> string \<Rightarrow> run_result" where
  "run e oid pid =
     (let g = at_gate e oid
      in case after_gate e oid pid g of
           (r, c) \<Rightarrow> \<lparr>final = wf c, result = r, steps = trace c, waited = g_waited g\<rparr>)"

section \<open>The approval window on the clock of the deliveries\<close>

text \<open>
  The signals that have arrived when \<open>limit\<close> milliseconds have passed, in order of
  arrival, read off the deliveries alone.
\<close>

fun arrived_by :: "nat \<Rightarrow> (nat \<times> signal list) list \<Rightarrow> signal list" where
  "arrived_by limit [] = []"
| "arrived_by limit ((gap, sigs) # rest) =
     (if gap \<le> limit then sigs @ arrived_by (limit - gap) rest else [])"

text \<open>The instance when the approval wait is entered (line 93).\<close>

definition wait_entry :: "env \<Rightarrow> string \<Rightarrow> order_workflow" where
  "wait_entry e oid =
     (let c0 = \<lparr>wf = init_workflow\<lparr>order_id := Some oid\<rparr>, trace = []\<rparr>;
          r = receive_step e oid c0;
          v = validate_step e (fst r) (snd r)
      in wf (set_step ''WAITING_FOR_APPROVAL'' (snd v)))"

text \<open>
  The instance when the approval window elapses, had every signal that arrives within
  the window been handled: the state in which the claim about the timeout reads the flags.
\<close>

definition state_at_expiry :: "env \<Rightarrow> string \<Rightarrow> order_workflow" where
  "state_at_expiry e oid =
     fold handle (arrived_by MANUAL_REVIEW_WINDOW (approval_arrivals e)) (wait_entry e oid)"

section \<open>OrderWorkflow between its suspension points\<close>

text \<open>
  The same \<open>run\<close>, event by event. An instance is suspended in one of the five awaits of
  \<open>run\<close> or it is closed: \<open>run\<close> has returned. The substrate hands it the completion of
  the call it awaits, the firing of the timer of the approval wait, and signals. A signal
  handler runs only while the workflow is open; the substrate delivers nothing to a closed
  workflow (the sender's call fails, which is what lines 206 to 209 of
  \<open>ShippingWorkflow\<close> catch).
\<close>

datatype phase =
    Receiving
  | Validating order
  | WaitingForApproval order bool
  | Charging order
  | SpawningShipping order charge_result
  | Closed wf_result

record workflow_instance =
  i_wf :: order_workflow
  i_phase :: phase
  i_order_id :: string
  i_payment_id :: string

datatype wf_event =
    Signals "signal list"
  | ReceiveDone "string + order"
  | ValidateDone "string + bool"
  | TimerFired
  | ChargeDone "string + charge_result"
  | ChildStarted "string + unit"

text \<open>Lines 54 to 59: up to the first await.\<close>

definition start :: "string \<Rightarrow> string \<Rightarrow> workflow_instance" where
  "start oid pid =
     \<lparr>i_wf = init_workflow\<lparr>order_id := Some oid, current_step := ''RECEIVING_ORDER''\<rparr>,
      i_phase = Receiving, i_order_id = oid, i_payment_id = pid\<rparr>"

text \<open>Assign the terminal step and return the given dictionary.\<close>

definition return_with :: "string \<Rightarrow> wf_result \<Rightarrow> workflow_instance \<Rightarrow> workflow_instance" where
  "return_with st res i = i\<lparr>i_wf := (i_wf i)\<lparr>current_step := st\<rparr>, i_phase := Closed res\<rparr>"

definition record_error :: "string \<Rightarrow> workflow_instance \<Rightarrow> workflow_instance" where
  "record_error msg i = i\<lparr>i_wf := (i_wf i)\<lparr>last_error := Some msg\<rparr>\<rparr>"

text \<open>\<open>{"status": ..., "order_id": order_id, "error": self._last_error}\<close>.\<close>

definition failure_result :: "string \<Rightarrow> workflow_instance \<Rightarrow> wf_result" where
  "failure_result status_text i =
     \<lparr>r_status = status_text, r_order_id = i_order_id i, r_error = last_error (i_wf i),
      r_payment = None\<rparr>"

text \<open>Lines 95 to 108: from the end of the wait to the next await or to a return.\<close>

definition leave_gate :: "order \<Rightarrow> bool \<Rightarrow> workflow_instance \<Rightarrow> workflow_instance" where
  "leave_gate ord valid i =
     (if cancelled (i_wf i) then
        return_with ''CANCELLED''
          \<lparr>r_status = ''cancelled'', r_order_id = i_order_id i, r_error = None,
           r_payment = None\<rparr> i
      else if \<not> approved (i_wf i) then
        (let i1 = record_error (py_or (last_error (i_wf i)) ''Manual review timed out'') i
         in return_with ''AWAITING_APPROVAL_TIMEOUT'' (failure_result ''manual_review_timeout'' i1) i1)
      else if \<not> valid then
        (let i1 = record_error (py_or (last_error (i_wf i)) ''Order validation failed'') i
         in return_with ''VALIDATION_FAILED'' (failure_result ''validation_failed'' i1) i1)
      else i\<lparr>i_wf := (i_wf i)\<lparr>current_step := ''CHARGING_PAYMENT''\<rparr>, i_phase := Charging ord\<rparr>)"

text \<open>
  Lines 92 and 93: the wait suspends only when its condition does not hold already.
\<close>

definition enter_gate :: "order \<Rightarrow> bool \<Rightarrow> workflow_instance \<Rightarrow> workflow_instance" where
  "enter_gate ord valid i =
     (let i1 = i\<lparr>i_wf := (i_wf i)\<lparr>current_step := ''WAITING_FOR_APPROVAL''\<rparr>\<rparr>
      in if approved (i_wf i1) \<or> cancelled (i_wf i1) then leave_gate ord valid i1
         else i1\<lparr>i_phase := WaitingForApproval ord valid\<rparr>)"

text \<open>
  What an instance in a given phase does with an event: the handlers for signals, the
  code of \<open>run\<close> from the await it is suspended in to the next one for the completion it
  waits for. An event that the phase does not wait for does not occur; a closed
  instance is left as it is.
\<close>

fun react :: "phase \<Rightarrow> wf_event \<Rightarrow> workflow_instance \<Rightarrow> workflow_instance" where
  "react (Closed r) ev i = i"
| "react (WaitingForApproval ord valid) (Signals sigs) i =
     (let i1 = i\<lparr>i_wf := fold handle sigs (i_wf i)\<rparr>
      in if approved (i_wf i1) \<or> cancelled (i_wf i1) then leave_gate ord valid i1 else i1)"
| "react ph (Signals sigs) i = i\<lparr>i_wf := fold handle sigs (i_wf i)\<rparr>"
| "react Receiving (ReceiveDone (Inr ord)) i =
     i\<lparr>i_wf := (i_wf i)\<lparr>current_step := ''VALIDATING_ORDER''\<rparr>, i_phase := Validating ord\<rparr>"
| "react Receiving (ReceiveDone (Inl exc)) i =
     (let i1 = record_error (if is_timeout_exception exc
                             then ''Activity task timed out during RECEIVE''
                             else ''Receive error: '' @ exc) i
      in i1\<lparr>i_wf := (i_wf i1)\<lparr>current_step := ''VALIDATING_ORDER''\<rparr>,
            i_phase := Validating (default_order (i_order_id i))\<rparr>)"
| "react (Validating ord) (ValidateDone (Inr valid)) i = enter_gate ord valid i"
| "react (Validating ord) (ValidateDone (Inl exc)) i =
     enter_gate ord False
       (record_error (if is_timeout_exception exc
                      then ''Activity task timed out during VALIDATION''
                      else ''Validation error: '' @ exc) i)"
| "react (WaitingForApproval ord valid) TimerFired i = leave_gate ord valid i"
| "react (Charging ord) (ChargeDone (Inr payment_result)) i =
     i\<lparr>i_wf := (i_wf i)\<lparr>current_step := ''STARTING_SHIPPING''\<rparr>,
       i_phase := SpawningShipping ord payment_result\<rparr>"
| "react (Charging ord) (ChargeDone (Inl exc)) i =
     (let i1 = record_error (if is_timeout_exception exc
                             then ''Activity task timed out during CHARGE''
                             else ''Charge error: '' @ exc) i
      in return_with ''CHARGE_FAILED'' (failure_result ''payment_failed'' i1) i1)"
| "react (SpawningShipping ord payment_result) (ChildStarted (Inr u)) i =
     return_with ''COMPLETED''
       \<lparr>r_status = ''success'', r_order_id = i_order_id i, r_error = None,
        r_payment = Some payment_result\<rparr>
       (i\<lparr>i_wf := (i_wf i)\<lparr>last_error := None\<rparr>\<rparr>)"
| "react (SpawningShipping ord payment_result) (ChildStarted (Inl exc)) i =
     (let i1 = record_error (''Failed to start shipping child workflow: '' @ exc) i
      in return_with ''SHIPPING_START_FAILED'' (failure_result ''shipping_start_failed'' i1) i1)"
| "react ph ev i = i"

definition step :: "wf_event \<Rightarrow> workflow_instance \<Rightarrow> workflow_instance" where
  "step ev i = react (i_phase i) ev i"

definition exec :: "wf_event list \<Rightarrow> workflow_instance \<Rightarrow> workflow_instance" where
  "exec evs i = fold step evs i"

text \<open>
  The step that \<open>run\<close> assigned last before each await, and for a closed instance a
  terminal step: the place of an instance in the code agrees with its \<open>current_step\<close>.
\<close>

definition well_placed :: "workflow_instance \<Rightarrow> bool" where
  "well_placed i =
     (case i_phase i of
        Receiving \<Rightarrow> current_step (i_wf i) = ''RECEIVING_ORDER''
      | Validating ord \<Rightarrow> current_step (i_wf i) = ''VALIDATING_ORDER''
      | WaitingForApproval ord valid \<Rightarrow> current_step (i_wf i) = ''WAITING_FOR_APPROVAL''
      | Charging ord \<Rightarrow> current_step (i_wf i) = ''CHARGING_PAYMENT''
      | SpawningShipping ord payment_result \<Rightarrow> current_step (i_wf i) = ''STARTING_SHIPPING''
      | Closed r \<Rightarrow> terminal (i_wf i))"

text \<open>
  The events of the run that an environment describes: for each await the signals
  delivered during it and then its completion; for the approval wait the deliveries up
  to the one that ends it, or the timer.
\<close>

fun wait_script :: "order_workflow \<Rightarrow> nat \<Rightarrow> (nat \<times> signal list) list \<Rightarrow> wf_event list" where
  "wait_script w left [] = (if approved w \<or> cancelled w then [] else [TimerFired])"
| "wait_script w left ((gap, sigs) # rest) =
     (if approved w \<or> cancelled w then []
      else if left < gap then [TimerFired]
      else Signals sigs # wait_script (fold handle sigs w) (left - gap) rest)"

definition script :: "env \<Rightarrow> string \<Rightarrow> string \<Rightarrow> wf_event list" where
  "script e oid pid =
     (let g = at_gate e oid
      in [Signals (signals_during_receive e), ReceiveDone (receive_order_activity e oid),
          Signals (signals_during_validate e),
          ValidateDone (validate_order_activity e (g_order g))] @
         wait_script (wait_entry e oid) MANUAL_REVIEW_WINDOW (approval_arrivals e) @
         [Signals (signals_during_charge e), ChargeDone (charge_payment e (g_order g) pid),
          Signals (signals_during_spawn e),
          ChildStarted (start_child_workflow e (g_order g) (workflow_id e))])"

section \<open>The persistent store (utils.py)\<close>

text \<open>
  The three tables, in insertion order. \<open>payments\<close> is keyed by \<open>payment_id\<close> and
  \<open>orders\<close> by \<open>id\<close>; the timestamp columns are left out. Every function of utils.py
  opens a connection and executes one statement, and either of them can raise: the
  outcome of the next store operations is read from \<open>db_faults\<close>, one entry for each
  operation, \<open>Some exc\<close> when it raises \<open>exc\<close>; past the end of the list the store
  works. \<open>gateway_calls\<close> lists the invocations of the external payment gateway.
\<close>

record payment_row =
  pr_order_id :: string
  pr_status :: string
  pr_amount :: real

record event =
  ev_order_id :: string
  ev_type :: string
  ev_payload :: "(string \<times> json) list"

record world =
  orders :: "(string \<times> string) list"
  payments :: "(string \<times> payment_row) list"
  events :: "event list"
  db_faults :: "string option list"
  gateway_calls :: "(order \<times> string) list"

definition db_attempt :: "world \<Rightarrow> string option \<times> world" where
  "db_attempt w = (case db_faults w of [] \<Rightarrow> (None, w) | f # fs \<Rightarrow> (f, w\<lparr>db_faults := fs\<rparr>))"

text \<open>The next \<open>n\<close> store operations succeed.\<close>

definition db_ok :: "nat \<Rightarrow> world \<Rightarrow> bool" where
  "db_ok n w = list_all (\<lambda>f. f = None) (take n (db_faults w))"

definition insert_event ::
  "string \<Rightarrow> string \<Rightarrow> (string \<times> json) list \<Rightarrow> world \<Rightarrow> (string + unit) \<times> world" where
  "insert_event oid ty payload w =
     (case db_attempt w of
        (Some exc, w') \<Rightarrow> (Inl exc, w')
      | (None, w') \<Rightarrow>
          (Inr (),
           w'\<lparr>events := events w' @ [\<lparr>ev_order_id = oid, ev_type = ty, ev_payload = payload\<rparr>]\<rparr>))"

definition upsert_order :: "string \<Rightarrow> string \<Rightarrow> world \<Rightarrow> (string + unit) \<times> world" where
  "upsert_order oid st w =
     (case db_attempt w of
        (Some exc, w') \<Rightarrow> (Inl exc, w')
      | (None, w') \<Rightarrow> (Inr (), w'\<lparr>orders := AList.update oid st (orders w')\<rparr>))"

definition update_order_status :: "string \<Rightarrow> string \<Rightarrow> world \<Rightarrow> (string + unit) \<times> world" where
  "update_order_status oid st w = upsert_order oid st w"

definition ensure_payment_idempotent ::
  "string \<Rightarrow> world \<Rightarrow> (string + payment_row option) \<times> world" where
  "ensure_payment_idempotent pid w =
     (case db_attempt w of
        (Some exc, w') \<Rightarrow> (Inl exc, w')
      | (None, w') \<Rightarrow> (Inr (map_of (payments w') pid), w'))"

text \<open>\<open>INSERT ... VALUES ($1, $2, 'INIT', 0, now()) ON CONFLICT (payment_id) DO NOTHING\<close>.\<close>

definition insert_payment_init :: "string \<Rightarrow> string \<Rightarrow> world \<Rightarrow> (string + unit) \<times> world" where
  "insert_payment_init pid oid w =
     (case db_attempt w of
        (Some exc, w') \<Rightarrow> (Inl exc, w')
      | (None, w') \<Rightarrow>
          (Inr (),
           case map_of (payments w') pid of
             Some row \<Rightarrow> w'
           | None \<Rightarrow>
               w'\<lparr>payments := payments w' @
                     [(pid, \<lparr>pr_order_id = oid, pr_status = ''INIT'', pr_amount = 0\<rparr>)]\<rparr>))"

definition update_payment_charged :: "string \<Rightarrow> real \<Rightarrow> world \<Rightarrow> (string + unit) \<times> world" where
  "update_payment_charged pid amount w =
     (case db_attempt w of
        (Some exc, w') \<Rightarrow> (Inl exc, w')
      | (None, w') \<Rightarrow>
          (Inr (),
           w'\<lparr>payments :=
                AList.map_entry pid (\<lambda>row. row\<lparr>pr_status := ''CHARGED'', pr_amount := amount\<rparr>)
                  (payments w')\<rparr>))"

definition update_payment_failed :: "string \<Rightarrow> world \<Rightarrow> (string + unit) \<times> world" where
  "update_payment_failed pid w =
     (case db_attempt w of
        (Some exc, w') \<Rightarrow> (Inl exc, w')
      | (None, w') \<Rightarrow>
          (Inr (),
           w'\<lparr>payments :=
                AList.map_entry pid (\<lambda>row. row\<lparr>pr_status := ''FAILED''\<rparr>) (payments w')\<rparr>))"

section \<open>\<open>charge_payment_activity\<close> (activities.py)\<close>

text \<open>
  The external gateway \<open>payment_charged(order, payment_id, None)\<close> is a collaborator: a
  parameter that gives, for the arguments of the call, the exception it raises or what it
  returns. Of the returned value the activity keeps the whole for the event log and
  reads the amount on line 79, \<open>float(result.get("amount", 0.0))\<close>: \<open>NoAmount\<close> when the
  key is absent, \<open>FloatOf a\<close> when \<open>float\<close> returns the double \<open>a\<close>, and
  \<open>NotConvertible exc\<close> when line 79 raises \<open>exc\<close> (the amount is \<open>None\<close>, is no
  number, or is an integer too large for a double).
\<close>

datatype amount_field = NoAmount | FloatOf real | NotConvertible string

record gw_result =
  gr_raw :: json
  gr_amount :: amount_field

type_synonym gateway = "order \<Rightarrow> string \<Rightarrow> string + gw_result"

record charge_payload =
  p_order :: "order option"
  p_payment_id :: "string option"

text \<open>
  \<open>repr\<close> of a string: in apostrophes, or in double quotes when the string has an
  apostrophe and no double quote; the quote in use and the backslash are escaped, tab,
  newline and carriage return are written as a backslash and the letter \<open>t\<close>, \<open>n\<close> or
  \<open>r\<close>, and every other code point that is not printable (below 32, 127 to 160, and
  173) as a backslash, the letter \<open>x\<close> and two hex digits.
\<close>

definition hex_digit :: "nat \<Rightarrow> char" where
  "hex_digit n = ''0123456789abcdef'' ! n"

definition printable :: "nat \<Rightarrow> bool" where
  "printable n = ((32 \<le> n \<and> n < 127) \<or> (161 \<le> n \<and> n \<noteq> 173))"

definition repr_char :: "char \<Rightarrow> char \<Rightarrow> string" where
  "repr_char quote c =
     (let n = (of_char c :: nat)
      in if c = quote \<or> n = 92 then [CHR 0x5C, c]
         else if n = 9 then [CHR 0x5C, CHR ''t'']
         else if n = 10 then [CHR 0x5C, CHR ''n'']
         else if n = 13 then [CHR 0x5C, CHR ''r'']
         else if printable n then [c]
         else [CHR 0x5C, CHR ''x'', hex_digit (n div 16), hex_digit (n mod 16)])"

definition repr_str :: "string \<Rightarrow> string" where
  "repr_str s =
     (let quote = (if CHR 0x27 \<in> set s \<and> CHR 0x22 \<notin> set s then CHR 0x22 else CHR 0x27)
      in [quote] @ concat (map (repr_char quote) s) @ [quote])"

fun py_repr :: "string option \<Rightarrow> string" where
  "py_repr None = ''None''"
| "py_repr (Some s) = repr_str s"

fun json_opt :: "string option \<Rightarrow> json" where
  "json_opt None = JNull"
| "json_opt (Some s) = JStr s"

text \<open>Lines 52 to 54: \<open>(payload or {}).get("order") or {}\<close> and the two identifiers.\<close>

definition payload_order :: "charge_payload option \<Rightarrow> order" where
  "payload_order payload =
     (case payload of
        None \<Rightarrow> empty_order
      | Some p \<Rightarrow> (case p_order p of None \<Rightarrow> empty_order | Some ord \<Rightarrow> ord))"

definition payload_payment_id :: "charge_payload option \<Rightarrow> string option" where
  "payload_payment_id payload = (case payload of None \<Rightarrow> None | Some p \<Rightarrow> p_payment_id p)"

definition payload_order_id :: "charge_payload option \<Rightarrow> string option" where
  "payload_order_id payload = o_order_id (payload_order payload)"

text \<open>Lines 56 to 60: the identifiers are missing.\<close>

definition missing_identifiers_error :: "string option \<Rightarrow> string option \<Rightarrow> string" where
  "missing_identifiers_error oid_opt pid_opt =
     ''missing identifiers (order_id='' @ py_repr oid_opt @ '', payment_id='' @
     py_repr pid_opt @ '')''"

definition reject_missing_identifiers ::
  "string option \<Rightarrow> string option \<Rightarrow> world \<Rightarrow> (string + charge_result) \<times> world" where
  "reject_missing_identifiers pid_opt oid_opt w =
     (let err = missing_identifiers_error oid_opt pid_opt
      in case insert_event (py_or oid_opt ''unknown'') ''PAYMENT_FAILED''
                [(''payment_id'', json_opt pid_opt), (''error'', JStr err)] w of
           (Inl exc, w') \<Rightarrow> (Inl exc, w')
         | (Inr u, w') \<Rightarrow> (Inr (Failed pid_opt err), w'))"

text \<open>
  Lines 78 to 88, the body of the \<open>try\<close>: the gateway call, the conversion of the
  amount and the three writes that follow (\<open>charged_writes\<close>, lines 81 to 88).
  \<open>Inl exc\<close> is the exception that reaches the handler of line 90.
\<close>

definition charged_writes ::
  "gw_result \<Rightarrow> real \<Rightarrow> string \<Rightarrow> string \<Rightarrow> world \<Rightarrow> (string + real) \<times> world" where
  "charged_writes res amount pid oid w =
     (case update_payment_charged pid amount w of
        (Inl exc, w1) \<Rightarrow> (Inl exc, w1)
      | (Inr u, w1) \<Rightarrow>
          (case insert_event oid ''PAYMENT_CHARGED''
                  [(''payment_id'', JStr pid), (''result'', gr_raw res)] w1 of
             (Inl exc, w2) \<Rightarrow> (Inl exc, w2)
           | (Inr u, w2) \<Rightarrow>
               (case update_order_status oid ''PAID'' w2 of
                  (Inl exc, w3) \<Rightarrow> (Inl exc, w3)
                | (Inr u, w3) \<Rightarrow> (Inr amount, w3))))"

definition try_charge ::
  "gateway \<Rightarrow> order \<Rightarrow> string \<Rightarrow> string \<Rightarrow> world \<Rightarrow> (string + real) \<times> world" where
  "try_charge gw ord pid oid w =
     (let w1 = w\<lparr>gateway_calls := gateway_calls w @ [(ord, pid)]\<rparr>
      in case gw ord pid of
           Inl exc \<Rightarrow> (Inl exc, w1)
         | Inr res \<Rightarrow>
             (case gr_amount res of
                NotConvertible exc \<Rightarrow> (Inl exc, w1)
              | NoAmount \<Rightarrow> charged_writes res 0 pid oid w1
              | FloatOf amount \<Rightarrow> charged_writes res amount pid oid w1))"

text \<open>
  Lines 90 to 104, the handler: both inner \<open>try\<close> blocks swallow what their writes
  raise; the second write of the second block is skipped when the first one raises.
\<close>

definition charge_failure_handling ::
  "string \<Rightarrow> string \<Rightarrow> string \<Rightarrow> world \<Rightarrow> charge_result \<times> world" where
  "charge_failure_handling err pid oid w =
     (let w1 = snd (update_payment_failed pid w);
          w2 = (case insert_event oid ''PAYMENT_FAILED''
                       [(''payment_id'', JStr pid), (''error'', JStr err)] w1 of
                  (Inl exc, w') \<Rightarrow> w'
                | (Inr u, w') \<Rightarrow> snd (update_order_status oid ''PAYMENT_FAILED'' w'))
      in (Failed (Some pid) err, w2))"

text \<open>
  Lines 62 to 104, both identifiers present. The reservation and the read of lines 62
  and 64 are outside every \<open>try\<close>; the event write of the short circuit is inside one.
\<close>

definition charge_identified ::
  "gateway \<Rightarrow> order \<Rightarrow> string \<Rightarrow> string \<Rightarrow> world \<Rightarrow> (string + charge_result) \<times> world" where
  "charge_identified gw ord pid oid w =
     (case insert_payment_init pid oid w of
        (Inl exc, w1) \<Rightarrow> (Inl exc, w1)
      | (Inr u, w1) \<Rightarrow>
          (case ensure_payment_idempotent pid w1 of
             (Inl exc, w2) \<Rightarrow> (Inl exc, w2)
           | (Inr existing, w2) \<Rightarrow>
               (case (case existing of
                        None \<Rightarrow> None
                      | Some row \<Rightarrow> if pr_status row = ''CHARGED'' then Some row else None) of
                  Some row \<Rightarrow>
                    (Inr (AlreadyCharged (pr_amount row)),
                     snd (insert_event oid ''PAYMENT_ALREADY_CHARGED''
                            [(''payment_id'', JStr pid), (''amount'', JNum (pr_amount row))] w2))
                | None \<Rightarrow>
                    (case try_charge gw ord pid oid w2 of
                       (Inr amount, w3) \<Rightarrow> (Inr (Charged amount), w3)
                     | (Inl exc, w3) \<Rightarrow>
                         (case charge_failure_handling exc pid oid w3 of
                            (r, w4) \<Rightarrow> (Inr r, w4))))))"

text \<open>
  \<open>charge_payment_activity(payload)\<close>: \<open>Inl exc\<close> when the activity raises \<open>exc\<close>,
  \<open>Inr r\<close> when it returns the dictionary \<open>r\<close>.
\<close>

definition charge_payment_activity ::
  "gateway \<Rightarrow> charge_payload option \<Rightarrow> world \<Rightarrow> (string + charge_result) \<times> world" where
  "charge_payment_activity gw payload w =
     (let ord = payload_order payload;
          pid_opt = payload_payment_id payload;
          oid_opt = payload_order_id payload
      in if \<not> truthy pid_opt \<or> \<not> truthy oid_opt
         then reject_missing_identifiers pid_opt oid_opt w
         else charge_identified gw ord (py_or pid_opt []) (py_or oid_opt []) w)"

section \<open>Example runs\<close>

text \<open>
  Scenario 1 of the specification: receive succeeds, the order is valid, \<open>Approve\<close> is
  sent right after the start, the charge succeeds with amount 42.50.
\<close>

definition scenario_env :: env where
  "scenario_env =
     \<lparr>workflow_id = ''O1'',
      receive_order_activity =
        (\<lambda>oid. Inr \<lparr>o_order_id = Some oid, o_items = Some [(''ABC'', 1)], o_status = None,
                    o_error = None\<rparr>),
      validate_order_activity = (\<lambda>ord. Inr True),
      charge_payment = (\<lambda>ord pid. Inr (Charged 42.5)),
      start_child_workflow = (\<lambda>ord wid. Inr ()),
      signals_during_receive = [SigApprove],
      signals_during_validate = [],
      approval_arrivals = [],
      signals_during_charge = [],
      signals_during_spawn = []\<rparr>"

text \<open>Both \<open>Approve\<close> and \<open>CancelOrder\<close> arrive before the approval wait begins.\<close>

definition race_env :: env where
  "race_env =
     scenario_env\<lparr>signals_during_receive := [SigApprove, SigCancelOrder ''changed mind'']\<rparr>"

text \<open>
  No approval and no cancellation within the window: an address update arrives 4 s into
  the wait, an approval 11 s into it.
\<close>

definition silent_env :: env where
  "silent_env =
     scenario_env\<lparr>signals_during_receive := [],
       approval_arrivals := [(4000, [SigUpdateAddress (JStr ''12 Elm St'')]), (7000, [SigApprove])]\<rparr>"

text \<open>The approval arrives in the workflow task in which the timer fires.\<close>

definition boundary_env :: env where
  "boundary_env =
     scenario_env\<lparr>signals_during_receive := [], approval_arrivals := [(10000, [SigApprove])]\<rparr>"

text \<open>The order is invalid and is approved 3 s into the wait.\<close>

definition invalid_env :: env where
  "invalid_env =
     scenario_env\<lparr>validate_order_activity := (\<lambda>ord. Inr False), signals_during_receive := [],
       approval_arrivals := [(3000, [SigApprove])]\<rparr>"

text \<open>The receive invocation faults; everything else is as in scenario 1.\<close>

definition faulty_env :: env where
  "faulty_env = scenario_env\<lparr>receive_order_activity := (\<lambda>oid. Inl ''connection reset'')\<rparr>"

text \<open>Both the receive and the validate invocation fault.\<close>

definition twice_faulty_env :: env where
  "twice_faulty_env =
     faulty_env\<lparr>validate_order_activity := (\<lambda>ord. Inl ''activity timeout'')\<rparr>"

text \<open>An empty store that works, and a gateway that declines every card.\<close>

definition empty_world :: world where
  "empty_world = \<lparr>orders = [], payments = [], events = [], db_faults = [], gateway_calls = []\<rparr>"

definition declining_gateway :: gateway where
  "declining_gateway ord pid = Inl ''card declined''"

definition paying_gateway :: gateway where
  "paying_gateway ord pid =
     Inr \<lparr>gr_raw = JObj [(''status'', JStr ''charged''), (''amount'', JNum 42.5)],
          gr_amount = FloatOf 42.5\<rparr>"

text \<open>
  Scenario 1 with the charge step served by \<open>charge_payment_activity\<close> itself, on an
  empty store and with the declining gateway.
\<close>

definition declined_env :: env where
  "declined_env =
     scenario_env\<lparr>charge_payment :=
       (\<lambda>ord pid. fst (charge_payment_activity declining_gateway
                          (Some \<lparr>p_order = Some ord, p_payment_id = Some pid\<rparr>) empty_world))\<rparr>"

definition order_O1 :: order where
  "order_O1 = \<lparr>o_order_id = Some ''O1'', o_items = Some [(''ABC'', 1)], o_status = None,
               o_error = None\<rparr>"

definition payload_O1 :: "charge_payload option" where
  "payload_O1 = Some \<lparr>p_order = Some order_O1, p_payment_id = Some ''P1''\<rparr>"

text \<open>A payload without a payment identifier.\<close>

definition payload_no_payment :: "charge_payload option" where
  "payload_no_payment = Some \<lparr>p_order = Some order_O1, p_payment_id = None\<rparr>"

text \<open>A store whose next operation raises.\<close>

definition broken_world :: world where
  "broken_world = empty_world\<lparr>db_faults := [Some ''connection refused'']\<rparr>"

text \<open>A store that serves the five operations of one successful charge and then fails.\<close>

definition outage_world :: world where
  "outage_world =
     empty_world\<lparr>db_faults := [None, None, None, None, None, Some ''connection refused'']\<rparr>"

text \<open>
  Scenario 5 of the specification, the parent's side: the events of a run that completes.
\<close>

definition completed_events :: "wf_event list" where
  "completed_events =
     [Signals [SigApprove], ReceiveDone (Inr order_O1), ValidateDone (Inr True),
      ChargeDone (Inr (Charged 42.5)), ChildStarted (Inr ())]"

text \<open>A store that serves two operations and then fails three times.\<close>

definition flaky_world :: world where
  "flaky_world =
     empty_world\<lparr>db_faults := [None, None, Some ''db down'', Some ''db down'', Some ''db down'']\<rparr>"

section \<open>Properties of the approval wait\<close>

text \<open>
  How the wait was left determines the flags, and a wait that timed out lasted exactly
  its budget.
\<close>

lemma handle_current_step [simp]: "current_step (fold handle sigs w) = current_step w"
proof (induction sigs arbitrary: w)
  case Nil
  show ?case by simp
next
  case (Cons s sigs)
  show ?case
    by (cases s)
      (simp_all add: Cons.IH CancelOrder_def UpdateAddress_def Approve_def DispatchFailed_def)
qed

lemma handle_order_id [simp]: "order_id (fold handle sigs w) = order_id w"
proof (induction sigs arbitrary: w)
  case Nil
  show ?case by simp
next
  case (Cons s sigs)
  show ?case
    by (cases s)
      (simp_all add: Cons.IH CancelOrder_def UpdateAddress_def Approve_def DispatchFailed_def)
qed

text \<open>A flag that is set stays set.\<close>

lemma handle_keeps_flags:
  "(approved w \<longrightarrow> approved (fold handle sigs w)) \<and>
   (cancelled w \<longrightarrow> cancelled (fold handle sigs w))"
proof (induction sigs arbitrary: w)
  case Nil
  show ?case by simp
next
  case (Cons s sigs)
  show ?case
    using Cons.IH [of "handle s w"]
    by (cases s) (simp_all add: CancelOrder_def UpdateAddress_def Approve_def DispatchFailed_def)
qed

lemma wait_flags_resolved:
  "wait_condition w left evs = (out, t, w') \<Longrightarrow> approved w' \<or> cancelled w' \<Longrightarrow> out = Resolved"
  by (induction w left evs arbitrary: out t w' rule: wait_condition.induct)
    (auto split: if_splits prod.splits)

lemma wait_resolved:
  "wait_condition w left evs = (Resolved, t, w') \<Longrightarrow> approved w' \<or> cancelled w'"
  by (induction w left evs arbitrary: t w' rule: wait_condition.induct)
    (auto split: if_splits prod.splits)

text \<open>
  A wait whose condition holds on entry takes no time; a delivery within the budget that
  makes the condition hold ends the wait at the time of its arrival.
\<close>

lemma wait_already_released:
  "approved w \<or> cancelled w \<Longrightarrow> wait_condition w left evs = (Resolved, 0, w)"
  by (cases evs) auto

lemma wait_released_by_delivery:
  assumes "\<not> approved w" and "\<not> cancelled w" and "gap \<le> left"
    and "approved (fold handle sigs w) \<or> cancelled (fold handle sigs w)"
  shows "wait_condition w left ((gap, sigs) # rest) = (Resolved, gap, fold handle sigs w)"
  using assms by (simp add: wait_already_released)

text \<open>
  An approval that arrives exactly when the window elapses is handled before the timeout:
  the wait is released after 10000 ms and the run completes.
\<close>

lemma approval_at_the_boundary:
  "wait_condition init_workflow MANUAL_REVIEW_WINDOW [(10000, [SigApprove])] =
     (Resolved, 10000, init_workflow\<lparr>approved := True\<rparr>)"
  by (simp add: MANUAL_REVIEW_WINDOW_def Approve_def init_workflow_def)

text \<open>
  When no signal that arrives within the budget sets a flag, the wait ends by its timeout
  when the whole budget is spent, having handled exactly the signals that arrived by then.
\<close>

lemma wait_quiet:
  assumes "\<not> approved (fold handle (arrived_by left evs) w)"
    and "\<not> cancelled (fold handle (arrived_by left evs) w)"
  shows "wait_condition w left evs = (TimedOut, left, fold handle (arrived_by left evs) w)"
  using assms
proof (induction evs arbitrary: w left)
  case Nil
  then show ?case by simp
next
  case (Cons a evs)
  obtain gap sigs where a: "a = (gap, sigs)" by (cases a)
  from Cons.prems handle_keeps_flags [of w "arrived_by left (a # evs)"]
  have unset: "\<not> approved w" "\<not> cancelled w" by blast+
  show ?case
  proof (cases "gap \<le> left")
    case False
    with a unset show ?thesis by simp
  next
    case True
    with Cons.prems a
    have "\<not> approved (fold handle (arrived_by (left - gap) evs) (fold handle sigs w))"
      and "\<not> cancelled (fold handle (arrived_by (left - gap) evs) (fold handle sigs w))"
      by simp_all
    from Cons.IH [OF this] a unset True show ?thesis by simp
  qed
qed

section \<open>The trace and the state of a run up to the approval gate\<close>

lemma trace_set_step [simp]: "trace (set_step s c) = trace c @ [Step s]"
  by (simp add: set_step_def)

lemma wf_set_step [simp]: "wf (set_step s c) = (wf c)\<lparr>current_step := s\<rparr>"
  by (simp add: set_step_def)

lemma trace_set_error [simp]: "trace (set_error x c) = trace c"
  by (simp add: set_error_def)

lemma wf_set_error [simp]: "wf (set_error x c) = (wf c)\<lparr>last_error := x\<rparr>"
  by (simp add: set_error_def)

lemma trace_call [simp]: "trace (call ev c) = trace c @ [ev]"
  by (simp add: call_def)

lemma wf_call [simp]: "wf (call ev c) = wf c"
  by (simp add: call_def)

lemma trace_deliver [simp]: "trace (deliver sigs c) = trace c"
  by (simp add: deliver_def)

lemma wf_deliver [simp]: "wf (deliver sigs c) = fold handle sigs (wf c)"
  by (simp add: deliver_def)

lemma receive_step_trace:
  "trace (snd (receive_step e oid c)) = trace c @ [Step ''RECEIVING_ORDER'', ExecReceive oid]"
  by (cases "receive_order_activity e oid") (simp_all add: receive_step_def Let_def)

lemma validate_step_trace:
  "trace (snd (validate_step e ord c)) = trace c @ [Step ''VALIDATING_ORDER'', ExecValidate ord]"
  by (cases "validate_order_activity e ord") (simp_all add: validate_step_def Let_def)

lemma approval_gate_trace:
  "trace (snd (snd (approval_gate e c))) = trace c @ [Step ''WAITING_FOR_APPROVAL'']"
  by (simp add: approval_gate_def Let_def split: prod.splits)

lemma at_gate_unfold:
  "at_gate e oid =
     (let c0 = \<lparr>wf = init_workflow\<lparr>order_id := Some oid\<rparr>, trace = []\<rparr>;
          r = receive_step e oid c0;
          v = validate_step e (fst r) (snd r);
          a = approval_gate e (snd v)
      in \<lparr>g_order = fst r, g_valid = fst v, g_outcome = fst a, g_waited = fst (snd a),
          g_saga = snd (snd a)\<rparr>)"
  by (simp add: at_gate_def Let_def split: prod.splits)

lemma gate_trace:
  "trace (g_saga (at_gate e oid)) =
     [Step ''RECEIVING_ORDER'', ExecReceive oid, Step ''VALIDATING_ORDER'',
      ExecValidate (g_order (at_gate e oid)), Step ''WAITING_FOR_APPROVAL'']"
  by (simp add: at_gate_unfold Let_def receive_step_trace validate_step_trace approval_gate_trace)

lemma approval_gate_wait:
  "approval_gate e c =
     (fst (wait_condition ((wf c)\<lparr>current_step := ''WAITING_FOR_APPROVAL''\<rparr>) MANUAL_REVIEW_WINDOW
             (approval_arrivals e)),
      fst (snd (wait_condition ((wf c)\<lparr>current_step := ''WAITING_FOR_APPROVAL''\<rparr>)
             MANUAL_REVIEW_WINDOW (approval_arrivals e))),
      (set_step ''WAITING_FOR_APPROVAL'' c)\<lparr>wf := snd (snd (wait_condition
             ((wf c)\<lparr>current_step := ''WAITING_FOR_APPROVAL''\<rparr>) MANUAL_REVIEW_WINDOW
             (approval_arrivals e)))\<rparr>)"
  by (simp add: approval_gate_def Let_def split: prod.splits)

lemma wait_entry_gate:
  "wait_condition (wait_entry e oid) MANUAL_REVIEW_WINDOW (approval_arrivals e) =
     (g_outcome (at_gate e oid), g_waited (at_gate e oid), wf (g_saga (at_gate e oid)))"
  by (simp add: at_gate_unfold wait_entry_def Let_def approval_gate_wait)

lemma charge_and_ship_trace:
  "\<exists>ext. trace (snd (charge_and_ship e oid pid ord c)) = trace c @ ext"
  by (cases "charge_payment e ord pid"; cases "start_child_workflow e ord (workflow_id e)")
    (simp_all add: charge_and_ship_def Let_def)

lemma after_gate_trace:
  "\<exists>ext. trace (snd (after_gate e oid pid g)) = trace (g_saga g) @ ext"
  using charge_and_ship_trace [of e oid pid "g_order g" "g_saga g"]
  by (auto simp: after_gate_def Let_def split: prod.splits)

lemma run_steps_prefix:
  "take 5 (steps (run e oid pid)) =
     [Step ''RECEIVING_ORDER'', ExecReceive oid, Step ''VALIDATING_ORDER'',
      ExecValidate (g_order (at_gate e oid)), Step ''WAITING_FOR_APPROVAL'']"
proof -
  obtain ext where "trace (snd (after_gate e oid pid (at_gate e oid))) =
      trace (g_saga (at_gate e oid)) @ ext"
    using after_gate_trace by blast
  then have "steps (run e oid pid) = trace (g_saga (at_gate e oid)) @ ext"
    by (auto simp: run_def Let_def split: prod.splits)
  then show ?thesis by (simp add: gate_trace)
qed

lemma charge_and_ship_completed:
  "charge_and_ship e oid pid ord c = (r, c') \<Longrightarrow> current_step (wf c') = ''COMPLETED''
   \<Longrightarrow> last_error (wf c') = None"
  by (cases "charge_payment e ord pid"; cases "start_child_workflow e ord (workflow_id e)")
    (auto simp: charge_and_ship_def Let_def)

lemmas run_defs = run_def at_gate_def after_gate_def charge_and_ship_def receive_step_def
  validate_step_def approval_gate_def set_step_def set_error_def call_def deliver_def
  init_workflow_def Approve_def CancelOrder_def UpdateAddress_def DispatchFailed_def
  MANUAL_REVIEW_WINDOW_def Let_def

lemmas store_defs = db_attempt_def insert_event_def upsert_order_def update_order_status_def
  ensure_payment_idempotent_def insert_payment_init_def update_payment_charged_def
  update_payment_failed_def

lemmas activity_defs = charge_payment_activity_def charge_identified_def try_charge_def
  charged_writes_def charge_failure_handling_def reject_missing_identifiers_def
  payload_order_def payload_payment_id_def payload_order_id_def empty_order_def
  missing_identifiers_error_def empty_world_def declining_gateway_def paying_gateway_def
  store_defs

lemmas repr_defs = repr_str_def repr_char_def printable_def hex_digit_def

lemma boundary_run_completes:
  "current_step (final (run boundary_env ''O1'' ''P1'')) = ''COMPLETED'' \<and>
   waited (run boundary_env ''O1'' ''P1'') = 10000"
  by (simp add: boundary_env_def scenario_env_def run_defs)

section \<open>The charge outcome is not inspected by the saga\<close>

text \<open>
  Claim C1 says that a run whose charge activity returns a result with status
  \<open>failed\<close> ends in \<open>CHARGE_FAILED\<close> and neither spawns shipping nor completes. The
  run below is scenario 1 with a gateway that declines: \<open>charge_payment_activity\<close>
  returns \<open>{"status": "failed", ...}\<close>, and \<open>OrderWorkflow.run\<close>, which reads the
  outcome of the charge only in its exception handler, goes on to start the shipping
  child, ends in \<open>COMPLETED\<close> and returns status \<open>success\<close> with the failed payment
  inside. The step after the charge does not depend on what the charge returned:
\<close>

lemma charge_result_not_inspected:
  assumes "charge_payment e ord pid = Inr r" and "start_child_workflow e ord (workflow_id e) = Inr u"
  shows "current_step (wf (snd (charge_and_ship e oid pid ord c))) = ''COMPLETED'' \<and>
         r_payment (fst (charge_and_ship e oid pid ord c)) = Some r"
  using assms by (simp add: charge_and_ship_def Let_def)

text \<open>
  Claim C1, evaluated on the run with the declining gateway: the activity returns the
  failure result, and the run completes with status \<open>success\<close> after starting the
  shipping child.
\<close>

theorem declined_charge_still_completes:
  "charge_payment declined_env order_O1 ''P1'' =
     Inr (Failed (Some ''P1'') ''card declined'') \<and>
   g_order (at_gate declined_env ''O1'') = order_O1 \<and>
   current_step (final (run declined_env ''O1'' ''P1'')) = ''COMPLETED'' \<and>
   result (run declined_env ''O1'' ''P1'') =
     Inr \<lparr>r_status = ''success'', r_order_id = ''O1'', r_error = None,
          r_payment = Some (Failed (Some ''P1'') ''card declined'')\<rparr> \<and>
   StartShipping order_O1 ''O1'' ''O1-shipping'' \<in> set (steps (run declined_env ''O1'' ''P1''))"
  by (simp add: declined_env_def scenario_env_def order_O1_def run_defs activity_defs)

section \<open>The approval gate\<close>

text \<open>
  Claim C4: when both the cancellation flag and the approval flag are set as the approval
  wait is left, the run ends in \<open>CANCELLED\<close> with result status \<open>cancelled\<close>, and it
  never assigns the steps \<open>CHARGING_PAYMENT\<close> or \<open>COMPLETED\<close>.
\<close>

theorem cancellation_precedes_approval:
  assumes "cancelled (wf (g_saga (at_gate e oid)))" and "approved (wf (g_saga (at_gate e oid)))"
  shows "current_step (final (run e oid pid)) = ''CANCELLED'' \<and>
         result (run e oid pid) =
           Inr \<lparr>r_status = ''cancelled'', r_order_id = oid, r_error = None, r_payment = None\<rparr> \<and>
         Step ''CHARGING_PAYMENT'' \<notin> set (steps (run e oid pid)) \<and>
         Step ''COMPLETED'' \<notin> set (steps (run e oid pid))"
proof -
  show ?thesis
    using assms by (simp add: run_def after_gate_def Let_def gate_trace)
qed

text \<open>
  Witness for C4: both signals arrive while the receive activity runs.
\<close>

theorem cancellation_precedes_approval_witness:
  "cancelled (wf (g_saga (at_gate race_env ''O1''))) \<and>
   approved (wf (g_saga (at_gate race_env ''O1''))) \<and>
   current_step (final (run race_env ''O1'' ''P1'')) = ''CANCELLED'' \<and>
   Step ''CHARGING_PAYMENT'' \<notin> set (steps (run race_env ''O1'' ''P1''))"
proof -
  have h1: "cancelled (wf (g_saga (at_gate race_env ''O1'')))"
    by (simp add: race_env_def scenario_env_def run_defs)
  have h2: "approved (wf (g_saga (at_gate race_env ''O1'')))"
    by (simp add: race_env_def scenario_env_def run_defs)
  from cancellation_precedes_approval [OF h1 h2, of "''P1''"] h1 h2 show ?thesis by simp
qed

text \<open>
  Claim C5: when neither the approval flag nor the cancellation flag is set as the
  approval window elapses, that is in the state reached by handling every signal that
  arrives within \<open>MANUAL_REVIEW_WINDOW\<close> of the start of the wait, the wait ends by its
  timeout after exactly \<open>MANUAL_REVIEW_WINDOW\<close>, having handled those signals and no later
  one, and the run ends in \<open>AWAITING_APPROVAL_TIMEOUT\<close> with result status
  \<open>manual_review_timeout\<close>.
\<close>

theorem timeout_at_window_expiry:
  assumes "\<not> approved (state_at_expiry e oid)" and "\<not> cancelled (state_at_expiry e oid)"
  shows "current_step (final (run e oid pid)) = ''AWAITING_APPROVAL_TIMEOUT'' \<and>
         (\<exists>r. result (run e oid pid) = Inr r \<and> r_status r = ''manual_review_timeout'') \<and>
         g_outcome (at_gate e oid) = TimedOut \<and>
         waited (run e oid pid) = MANUAL_REVIEW_WINDOW \<and>
         wf (g_saga (at_gate e oid)) = state_at_expiry e oid"
proof -
  have "wait_condition (wait_entry e oid) MANUAL_REVIEW_WINDOW (approval_arrivals e) =
          (TimedOut, MANUAL_REVIEW_WINDOW, state_at_expiry e oid)"
    using assms wait_quiet unfolding state_at_expiry_def by blast
  then have g: "g_outcome (at_gate e oid) = TimedOut"
    "g_waited (at_gate e oid) = MANUAL_REVIEW_WINDOW"
    "wf (g_saga (at_gate e oid)) = state_at_expiry e oid"
    by (simp_all add: wait_entry_gate)
  with assms show ?thesis
    by (simp add: run_def after_gate_def Let_def)
qed

text \<open>
  Witness for C5: an address update arrives 4 s into the wait and is handled; an approval
  arrives 11 s into it and is not; the wait lasts 10000 ms.
\<close>

theorem timeout_at_window_expiry_witness:
  "\<not> approved (state_at_expiry silent_env ''O1'') \<and>
   \<not> cancelled (state_at_expiry silent_env ''O1'') \<and>
   address (state_at_expiry silent_env ''O1'') = Some (JStr ''12 Elm St'') \<and>
   current_step (final (run silent_env ''O1'' ''P1'')) = ''AWAITING_APPROVAL_TIMEOUT'' \<and>
   address (final (run silent_env ''O1'' ''P1'')) = Some (JStr ''12 Elm St'') \<and>
   waited (run silent_env ''O1'' ''P1'') = 10000"
proof -
  have s: "state_at_expiry silent_env ''O1'' =
      \<lparr>order_id = Some ''O1'', current_step = ''WAITING_FOR_APPROVAL'', approved = False,
       cancelled = False, last_error = None, address = Some (JStr ''12 Elm St'')\<rparr>"
    by (simp add: state_at_expiry_def wait_entry_def silent_env_def scenario_env_def run_defs)
  have h1: "\<not> approved (state_at_expiry silent_env ''O1'')" by (simp add: s)
  have h2: "\<not> cancelled (state_at_expiry silent_env ''O1'')" by (simp add: s)
  have a: "address (final (run silent_env ''O1'' ''P1'')) = Some (JStr ''12 Elm St'')"
    by (simp add: silent_env_def scenario_env_def run_defs)
  from timeout_at_window_expiry [OF h1 h2, of "''P1''"] h1 h2 a s show ?thesis
    by (simp add: MANUAL_REVIEW_WINDOW_def)
qed

text \<open>
  Claim C6: when validation produced false, the approval flag is set and the cancellation
  flag is not as the wait is left, the run ends in \<open>VALIDATION_FAILED\<close> with result
  status \<open>validation_failed\<close>, and the charge activity is never invoked.
\<close>

theorem approved_invalid_order_not_charged:
  assumes "\<not> g_valid (at_gate e oid)" and "approved (wf (g_saga (at_gate e oid)))"
    and "\<not> cancelled (wf (g_saga (at_gate e oid)))"
  shows "current_step (final (run e oid pid)) = ''VALIDATION_FAILED'' \<and>
         (\<exists>r. result (run e oid pid) = Inr r \<and> r_status r = ''validation_failed'') \<and>
         (\<forall>ord p. ExecCharge ord p \<notin> set (steps (run e oid pid)))"
proof -
  show ?thesis
    using assms by (simp add: run_def after_gate_def Let_def gate_trace)
qed

text \<open>
  Witness for C6: an invalid order that is approved 3 s into the wait.
\<close>

theorem approved_invalid_order_not_charged_witness:
  "\<not> g_valid (at_gate invalid_env ''O1'') \<and>
   approved (wf (g_saga (at_gate invalid_env ''O1''))) \<and>
   \<not> cancelled (wf (g_saga (at_gate invalid_env ''O1''))) \<and>
   current_step (final (run invalid_env ''O1'' ''P1'')) = ''VALIDATION_FAILED'' \<and>
   (\<forall>ord p. ExecCharge ord p \<notin> set (steps (run invalid_env ''O1'' ''P1'')))"
proof -
  have h1: "\<not> g_valid (at_gate invalid_env ''O1'')"
    by (simp add: invalid_env_def scenario_env_def run_defs)
  have h2: "approved (wf (g_saga (at_gate invalid_env ''O1'')))"
    by (simp add: invalid_env_def scenario_env_def run_defs)
  have h3: "\<not> cancelled (wf (g_saga (at_gate invalid_env ''O1'')))"
    by (simp add: invalid_env_def scenario_env_def run_defs)
  from approved_invalid_order_not_charged [OF h1 h2 h3, of "''P1''"] h1 h2 h3 show ?thesis by simp
qed

section \<open>Faults of the receive and validate invocations\<close>

text \<open>
  Claim C7: when the receive invocation faults, the error is recorded in \<open>last_error\<close>,
  the order becomes \<open>{"order_id": order_id, "items": []}\<close>, and that order is what the
  validate activity is invoked with; when the validate invocation faults, the error is
  recorded and the order counts as invalid (\<open>valid = False\<close>). In every run, whatever the
  two invocations did, the receive step is followed by the validate step on the order at
  hand and by the approval gate.
\<close>

theorem early_faults_are_absorbed:
  "(receive_order_activity e oid = Inl exc \<longrightarrow>
      fst (receive_step e oid c) =
        \<lparr>o_order_id = Some oid, o_items = Some [], o_status = None, o_error = None\<rparr> \<and>
      last_error (wf (snd (receive_step e oid c))) =
        Some (if is_timeout_exception exc then ''Activity task timed out during RECEIVE''
              else ''Receive error: '' @ exc) \<and>
      g_order (at_gate e oid) =
        \<lparr>o_order_id = Some oid, o_items = Some [], o_status = None, o_error = None\<rparr> \<and>
      ExecValidate \<lparr>o_order_id = Some oid, o_items = Some [], o_status = None, o_error = None\<rparr>
        \<in> set (steps (run e oid pid))) \<and>
   (validate_order_activity e ord = Inl exc' \<longrightarrow>
      fst (validate_step e ord c') = False \<and>
      last_error (wf (snd (validate_step e ord c'))) =
        Some (if is_timeout_exception exc' then ''Activity task timed out during VALIDATION''
              else ''Validation error: '' @ exc') \<and>
      (ord = g_order (at_gate e oid) \<longrightarrow> \<not> g_valid (at_gate e oid))) \<and>
   take 5 (steps (run e oid pid)) =
     [Step ''RECEIVING_ORDER'', ExecReceive oid, Step ''VALIDATING_ORDER'',
      ExecValidate (g_order (at_gate e oid)), Step ''WAITING_FOR_APPROVAL'']"
proof -
  have p: "take 5 (steps (run e oid pid)) =
     [Step ''RECEIVING_ORDER'', ExecReceive oid, Step ''VALIDATING_ORDER'',
      ExecValidate (g_order (at_gate e oid)), Step ''WAITING_FOR_APPROVAL'']"
    by (rule run_steps_prefix)
  have v: "ExecValidate (g_order (at_gate e oid)) \<in> set (steps (run e oid pid))"
    using in_set_takeD [of "ExecValidate (g_order (at_gate e oid))" 5 "steps (run e oid pid)"]
    by (simp add: p)
  have a: "receive_order_activity e oid = Inl exc \<longrightarrow>
      fst (receive_step e oid c) =
        \<lparr>o_order_id = Some oid, o_items = Some [], o_status = None, o_error = None\<rparr> \<and>
      last_error (wf (snd (receive_step e oid c))) =
        Some (if is_timeout_exception exc then ''Activity task timed out during RECEIVE''
              else ''Receive error: '' @ exc) \<and>
      g_order (at_gate e oid) =
        \<lparr>o_order_id = Some oid, o_items = Some [], o_status = None, o_error = None\<rparr>"
    by (simp add: at_gate_unfold receive_step_def default_order_def Let_def)
  have b: "validate_order_activity e ord = Inl exc' \<longrightarrow>
      fst (validate_step e ord c') = False \<and>
      last_error (wf (snd (validate_step e ord c'))) =
        Some (if is_timeout_exception exc' then ''Activity task timed out during VALIDATION''
              else ''Validation error: '' @ exc') \<and>
      (ord = g_order (at_gate e oid) \<longrightarrow> \<not> g_valid (at_gate e oid))"
    by (auto simp: at_gate_unfold validate_step_def Let_def)
  from a b p v show ?thesis by metis
qed

text \<open>
  Witness for C7: both invocations fault, the second with a timeout message.
\<close>

theorem early_faults_are_absorbed_witness:
  "receive_order_activity twice_faulty_env ''O1'' = Inl ''connection reset'' \<and>
   validate_order_activity twice_faulty_env
     \<lparr>o_order_id = Some ''O1'', o_items = Some [], o_status = None, o_error = None\<rparr> =
     Inl ''activity timeout'' \<and>
   g_order (at_gate twice_faulty_env ''O1'') =
     \<lparr>o_order_id = Some ''O1'', o_items = Some [], o_status = None, o_error = None\<rparr> \<and>
   \<not> g_valid (at_gate twice_faulty_env ''O1'') \<and>
   last_error (wf (snd (receive_step twice_faulty_env ''O1'' \<lparr>wf = init_workflow, trace = []\<rparr>))) =
     Some ''Receive error: connection reset'' \<and>
   last_error (wf (snd (validate_step twice_faulty_env
                          \<lparr>o_order_id = Some ''O1'', o_items = Some [], o_status = None,
                           o_error = None\<rparr>
                          \<lparr>wf = init_workflow, trace = []\<rparr>))) =
     Some ''Activity task timed out during VALIDATION'' \<and>
   take 5 (steps (run twice_faulty_env ''O1'' ''P1'')) =
     [Step ''RECEIVING_ORDER'', ExecReceive ''O1'', Step ''VALIDATING_ORDER'',
      ExecValidate \<lparr>o_order_id = Some ''O1'', o_items = Some [], o_status = None,
                    o_error = None\<rparr>,
      Step ''WAITING_FOR_APPROVAL'']"
proof -
  have h1: "receive_order_activity twice_faulty_env ''O1'' = Inl ''connection reset''"
    by (simp add: twice_faulty_env_def faulty_env_def scenario_env_def)
  have h2: "validate_order_activity twice_faulty_env
     \<lparr>o_order_id = Some ''O1'', o_items = Some [], o_status = None, o_error = None\<rparr> =
     Inl ''activity timeout''"
    by (simp add: twice_faulty_env_def faulty_env_def scenario_env_def)
  have t1: "\<not> is_timeout_exception ''connection reset''"
    by (simp add: is_timeout_exception_def lower_def lower_char_def Let_def)
  have t2: "is_timeout_exception ''activity timeout''"
    by (simp add: is_timeout_exception_def lower_def lower_char_def Let_def)
  from early_faults_are_absorbed [of twice_faulty_env "''O1''" "''connection reset''"
      "\<lparr>wf = init_workflow, trace = []\<rparr>" "''P1''"
      "\<lparr>o_order_id = Some ''O1'', o_items = Some [], o_status = None, o_error = None\<rparr>"
      "''activity timeout''" "\<lparr>wf = init_workflow, trace = []\<rparr>"] h1 h2 t1 t2
  show ?thesis by simp
qed

section \<open>Completion\<close>

text \<open>
  Claim C10: a run that ends in \<open>COMPLETED\<close> ends with \<open>last_error = None\<close>, and so
  does the snapshot of \<open>status()\<close>, whatever was recorded earlier in the run.
\<close>

theorem completed_resets_last_error:
  assumes "current_step (final (run e oid pid)) = ''COMPLETED''"
  shows "last_error (final (run e oid pid)) = None \<and>
         s_last_error (status (final (run e oid pid))) = None"
proof -
  obtain r c where ag: "after_gate e oid pid (at_gate e oid) = (r, c)"
    by (cases "after_gate e oid pid (at_gate e oid)")
  with assms have st: "current_step (wf c) = ''COMPLETED''"
    by (simp add: run_def Let_def)
  have "last_error (wf c) = None"
    using ag st
    by (auto simp: after_gate_def Let_def
        split: if_splits prod.splits dest: charge_and_ship_completed)
  with ag show ?thesis by (simp add: run_def Let_def status_def)
qed

text \<open>
  Witness for C10: the receive invocation faults and records an error, the run still
  completes.
\<close>

theorem completed_resets_last_error_witness:
  "current_step (final (run faulty_env ''O1'' ''P1'')) = ''COMPLETED'' \<and>
   last_error (wf (snd (receive_step faulty_env ''O1''
      \<lparr>wf = init_workflow\<lparr>order_id := Some ''O1''\<rparr>, trace = []\<rparr>))) =
     Some ''Receive error: connection reset'' \<and>
   s_last_error (status (final (run faulty_env ''O1'' ''P1''))) = None"
proof -
  have h: "current_step (final (run faulty_env ''O1'' ''P1'')) = ''COMPLETED''"
    by (simp add: faulty_env_def scenario_env_def run_defs)
  have t: "\<not> is_timeout_exception ''connection reset''"
    by (simp add: is_timeout_exception_def lower_def lower_char_def Let_def)
  have r: "last_error (wf (snd (receive_step faulty_env ''O1''
      \<lparr>wf = init_workflow\<lparr>order_id := Some ''O1''\<rparr>, trace = []\<rparr>))) =
     Some ''Receive error: connection reset''"
    using t by (simp add: faulty_env_def scenario_env_def run_defs)
  from completed_resets_last_error [OF h] h r show ?thesis by simp
qed

section \<open>The instance between its suspension points\<close>

lemmas instance_defs = step_def exec_def start_def return_with_def record_error_def
  failure_result_def leave_gate_def enter_gate_def init_workflow_def

lemma well_placed_start: "well_placed (start oid pid)"
  by (simp add: well_placed_def start_def)

lemma well_placed_leave_gate:
  "well_placed (leave_gate ord valid i)"
  by (simp add: well_placed_def leave_gate_def return_with_def record_error_def Let_def
      terminal_def terminal_steps_def)

lemma well_placed_enter_gate:
  "well_placed (enter_gate ord valid i)"
  by (simp add: enter_gate_def Let_def well_placed_leave_gate) (simp add: well_placed_def)

lemma well_placed_signals:
  assumes "well_placed i"
  shows "well_placed (step (Signals sigs) i)"
proof (cases "i_phase i")
  case (WaitingForApproval ord valid)
  with assms show ?thesis
    by (simp add: step_def Let_def well_placed_leave_gate) (simp add: well_placed_def)
next
  case (Closed r)
  with assms show ?thesis by (simp add: step_def)
qed (use assms in \<open>simp_all add: step_def well_placed_def\<close>)

lemma well_placed_step:
  assumes "well_placed i"
  shows "well_placed (step ev i)"
proof (cases ev)
  case (Signals sigs)
  with assms well_placed_signals show ?thesis by simp
next
  case (ReceiveDone r)
  with assms show ?thesis
    by (cases "i_phase i"; cases r)
      (simp_all add: step_def well_placed_def record_error_def Let_def)
next
  case (ValidateDone r)
  show ?thesis
  proof (cases "i_phase i")
    case (Validating ord)
    with ValidateDone show ?thesis
      by (cases r) (simp_all add: step_def well_placed_enter_gate)
  qed (use assms ValidateDone in \<open>simp_all add: step_def\<close>)
next
  case TimerFired
  show ?thesis
  proof (cases "i_phase i")
    case (WaitingForApproval ord valid)
    with TimerFired show ?thesis by (simp add: step_def well_placed_leave_gate)
  qed (use assms TimerFired in \<open>simp_all add: step_def\<close>)
next
  case (ChargeDone r)
  with assms show ?thesis
    by (cases "i_phase i"; cases r)
      (simp_all add: step_def well_placed_def record_error_def return_with_def Let_def
        terminal_def terminal_steps_def)
next
  case (ChildStarted r)
  with assms show ?thesis
    by (cases "i_phase i"; cases r)
      (simp_all add: step_def well_placed_def record_error_def return_with_def Let_def
        terminal_def terminal_steps_def)
qed

lemma well_placed_exec:
  "well_placed i \<Longrightarrow> well_placed (exec evs i)"
  unfolding exec_def
  by (induction evs arbitrary: i) (simp_all add: well_placed_step)

text \<open>An instance whose step is terminal is closed: \<open>run\<close> has returned.\<close>

lemma terminal_is_closed:
  assumes "well_placed i" and "terminal (i_wf i)"
  shows "\<exists>r. i_phase i = Closed r"
  using assms
  by (cases "i_phase i") (simp_all add: well_placed_def terminal_def terminal_steps_def)

lemma closed_ignores: "i_phase i = Closed r \<Longrightarrow> step ev i = i"
  by (simp add: step_def)

lemma closed_ignores_all: "i_phase i = Closed r \<Longrightarrow> exec evs i = i"
  unfolding exec_def by (induction evs) (simp_all add: closed_ignores)

text \<open>While the instance is open, the handler runs and records the reason.\<close>

lemma open_instance_records_dispatch_failed:
  assumes "i_phase i = Charging ord \<or> i_phase i = SpawningShipping ord payment_result"
  shows "last_error (i_wf (step (Signals [SigDispatchFailed reason]) i)) =
           Some (''DispatchFailed: '' @ reason)"
  using assms by (auto simp: step_def DispatchFailed_def)


lemma exec_Nil [simp]: "exec [] i = i"
  by (simp add: exec_def)

lemma exec_Cons [simp]: "exec (ev # evs) i = exec evs (step ev i)"
  by (simp add: exec_def)

lemma exec_append: "exec (evs @ evs2) i = exec evs2 (exec evs i)"
  by (simp add: exec_def)

lemma leave_gate_phase: "leave_gate ord valid (i\<lparr>i_phase := p\<rparr>) = leave_gate ord valid i"
  by (simp add: leave_gate_def return_with_def record_error_def failure_result_def Let_def)

lemma wait_script_released: "approved w \<or> cancelled w \<Longrightarrow> wait_script w left evs = []"
  by (cases evs) auto

text \<open>The events of the approval wait take a waiting instance to the end of the wait.\<close>

lemma exec_wait_script:
  assumes "i_phase i = WaitingForApproval ord valid"
    and "\<not> approved (i_wf i)" and "\<not> cancelled (i_wf i)"
    and "wait_condition (i_wf i) left evs = (out, t, w')"
  shows "exec (wait_script (i_wf i) left evs) i = leave_gate ord valid (i\<lparr>i_wf := w'\<rparr>)"
  using assms
proof (induction evs arbitrary: i left out t w')
  case Nil
  then show ?case by (cases i) (auto simp: step_def split: if_splits)
next
  case (Cons a evs)
  obtain gap sigs where a: "a = (gap, sigs)" by (cases a)
  show ?case
  proof (cases "left < gap")
    case True
    with Cons.prems a show ?thesis by (cases i) (auto simp: step_def split: if_splits)
  next
    case False
    define i1 where "i1 = i\<lparr>i_wf := fold handle sigs (i_wf i)\<rparr>"
    show ?thesis
    proof (cases "approved (i_wf i1) \<or> cancelled (i_wf i1)")
      case True
      then have "wait_condition (fold handle sigs (i_wf i)) (left - gap) evs =
          (Resolved, 0, fold handle sigs (i_wf i))"
        by (simp add: i1_def wait_already_released)
      with Cons.prems a False have w': "w' = fold handle sigs (i_wf i)" by simp
      from True have "wait_script (fold handle sigs (i_wf i)) (left - gap) evs = []"
        by (simp add: i1_def wait_script_released)
      with Cons.prems a False True w' show ?thesis
        by (simp add: step_def i1_def Let_def)
    next
      case open_wait: False
      obtain out1 t1 w1 where
        r: "wait_condition (i_wf i1) (left - gap) evs = (out1, t1, w1)"
        by (cases "wait_condition (i_wf i1) (left - gap) evs")
      with Cons.prems a False have w': "w' = w1" by (simp add: i1_def)
      have ph: "i_phase i1 = WaitingForApproval ord valid"
        using Cons.prems(1) by (simp add: i1_def)
      from open_wait have nf: "\<not> approved (i_wf i1)" "\<not> cancelled (i_wf i1)" by simp_all
      have "exec (wait_script (i_wf i1) (left - gap) evs) i1 = leave_gate ord valid (i1\<lparr>i_wf := w1\<rparr>)"
        by (rule Cons.IH [OF ph nf r])
      moreover have "step (Signals sigs) i = i1"
        using Cons.prems(1) open_wait by (simp add: step_def i1_def Let_def)
      ultimately show ?thesis
        using Cons.prems a False w' by (simp add: i1_def)
    qed
  qed
qed

lemma exec_to_gate:
  "exec [Signals (signals_during_receive e), ReceiveDone (receive_order_activity e oid),
         Signals (signals_during_validate e),
         ValidateDone (validate_order_activity e (g_order (at_gate e oid)))] (start oid pid) =
   enter_gate (g_order (at_gate e oid)) (g_valid (at_gate e oid))
     \<lparr>i_wf = wait_entry e oid, i_phase = Validating (g_order (at_gate e oid)),
      i_order_id = oid, i_payment_id = pid\<rparr>"
  by (cases "receive_order_activity e oid";
      cases "validate_order_activity e (fst (receive_step e oid
               \<lparr>wf = init_workflow\<lparr>order_id := Some oid\<rparr>, trace = []\<rparr>))")
    (simp_all add: at_gate_unfold wait_entry_def receive_step_def validate_step_def Let_def
      step_def start_def record_error_def enter_gate_def)

lemma exec_after_gate:
  assumes "i_wf i = wf (g_saga g)" and "i_order_id i = oid" and "i_payment_id i = pid"
  shows "i_wf (exec [Signals (signals_during_charge e), ChargeDone (charge_payment e (g_order g) pid),
                     Signals (signals_during_spawn e),
                     ChildStarted (start_child_workflow e (g_order g) (workflow_id e))]
                (leave_gate (g_order g) (g_valid g) i)) = wf (snd (after_gate e oid pid g)) \<and>
         (\<exists>r. i_phase (exec [Signals (signals_during_charge e),
                              ChargeDone (charge_payment e (g_order g) pid),
                              Signals (signals_during_spawn e),
                              ChildStarted (start_child_workflow e (g_order g) (workflow_id e))]
                         (leave_gate (g_order g) (g_valid g) i)) = Closed r \<and>
              fst (after_gate e oid pid g) = Inr r)"
  using assms
  by (cases "charge_payment e (g_order g) pid";
      cases "start_child_workflow e (g_order g) (workflow_id e)")
    (simp_all add: after_gate_def charge_and_ship_def leave_gate_def return_with_def
      record_error_def failure_result_def step_def Let_def)

text \<open>
  The event-driven instance, run on the events of an environment, ends in the state and
  with the result of \<open>run\<close> for that environment.
\<close>

theorem exec_script_is_run:
  "i_wf (exec (script e oid pid) (start oid pid)) = final (run e oid pid) \<and>
   (\<exists>r. i_phase (exec (script e oid pid) (start oid pid)) = Closed r \<and>
        result (run e oid pid) = Inr r)"
proof -
  define g where "g = at_gate e oid"
  define iV where "iV = \<lparr>i_wf = wait_entry e oid, i_phase = Validating (g_order g),
      i_order_id = oid, i_payment_id = pid\<rparr>"
  define tail where "tail = [Signals (signals_during_charge e),
      ChargeDone (charge_payment e (g_order g) pid), Signals (signals_during_spawn e),
      ChildStarted (start_child_workflow e (g_order g) (workflow_id e))]"
  have w: "wait_condition (wait_entry e oid) MANUAL_REVIEW_WINDOW (approval_arrivals e) =
      (g_outcome g, g_waited g, wf (g_saga g))"
    by (simp add: g_def wait_entry_gate)
  have cs: "(wait_entry e oid)\<lparr>current_step := ''WAITING_FOR_APPROVAL''\<rparr> = wait_entry e oid"
    by (simp add: wait_entry_def Let_def)
  have gate: "exec (wait_script (wait_entry e oid) MANUAL_REVIEW_WINDOW (approval_arrivals e))
                (enter_gate (g_order g) (g_valid g) iV) =
              leave_gate (g_order g) (g_valid g) (iV\<lparr>i_wf := wf (g_saga g)\<rparr>)"
  proof (cases "approved (wait_entry e oid) \<or> cancelled (wait_entry e oid)")
    case True
    with w have "wf (g_saga g) = wait_entry e oid"
      by (simp add: wait_already_released)
    with True show ?thesis
      by (simp add: wait_script_released enter_gate_def iV_def cs Let_def)
  next
    case False
    then have eg: "enter_gate (g_order g) (g_valid g) iV =
        iV\<lparr>i_phase := WaitingForApproval (g_order g) (g_valid g)\<rparr>"
      by (simp add: enter_gate_def iV_def cs Let_def)
    have "exec (wait_script (i_wf (iV\<lparr>i_phase := WaitingForApproval (g_order g) (g_valid g)\<rparr>))
                  MANUAL_REVIEW_WINDOW (approval_arrivals e))
            (iV\<lparr>i_phase := WaitingForApproval (g_order g) (g_valid g)\<rparr>) =
          leave_gate (g_order g) (g_valid g)
            (iV\<lparr>i_phase := WaitingForApproval (g_order g) (g_valid g), i_wf := wf (g_saga g)\<rparr>)"
      using False w by (intro exec_wait_script) (simp_all add: iV_def)
    then show ?thesis
      using leave_gate_phase [where ord = "g_order g" and valid = "g_valid g"
          and i = "iV\<lparr>i_wf := wf (g_saga g)\<rparr>"
          and p = "WaitingForApproval (g_order g) (g_valid g)"]
      unfolding eg by (simp add: iV_def)
  qed
  define head where "head = [Signals (signals_during_receive e),
      ReceiveDone (receive_order_activity e oid), Signals (signals_during_validate e),
      ValidateDone (validate_order_activity e (g_order g))]"
  have sc: "script e oid pid =
      head @ wait_script (wait_entry e oid) MANUAL_REVIEW_WINDOW (approval_arrivals e) @ tail"
    by (simp add: script_def Let_def g_def head_def tail_def)
  have hd: "exec head (start oid pid) = enter_gate (g_order g) (g_valid g) iV"
    unfolding head_def g_def iV_def by (rule exec_to_gate)
  have "exec (script e oid pid) (start oid pid) =
      exec tail (leave_gate (g_order g) (g_valid g) (iV\<lparr>i_wf := wf (g_saga g)\<rparr>))"
    by (simp only: sc exec_append hd gate)
  moreover have "i_wf (exec tail (leave_gate (g_order g) (g_valid g) (iV\<lparr>i_wf := wf (g_saga g)\<rparr>))) =
        wf (snd (after_gate e oid pid g)) \<and>
      (\<exists>r. i_phase (exec tail (leave_gate (g_order g) (g_valid g) (iV\<lparr>i_wf := wf (g_saga g)\<rparr>))) =
              Closed r \<and> fst (after_gate e oid pid g) = Inr r)"
    unfolding tail_def by (rule exec_after_gate) (simp_all add: iV_def)
  ultimately show ?thesis
    by (auto simp: run_def Let_def g_def split: prod.splits)
qed

text \<open>
  A \<open>DispatchFailed\<close> that arrives after the run of an environment has ended leaves the
  snapshot of \<open>status()\<close> as the run left it.
\<close>

lemma dispatch_failed_after_run:
  "status (i_wf (exec (script e oid pid @ [Signals [SigDispatchFailed reason]]) (start oid pid))) =
     status (final (run e oid pid))"
proof -
  obtain r where "i_phase (exec (script e oid pid) (start oid pid)) = Closed r"
    using exec_script_is_run by blast
  then have "exec [Signals [SigDispatchFailed reason]] (exec (script e oid pid) (start oid pid)) =
      exec (script e oid pid) (start oid pid)"
    by (rule closed_ignores_all)
  then show ?thesis
    using exec_script_is_run [of e oid pid] by (simp add: exec_append del: exec_Cons)
qed

section \<open>Signals after termination\<close>

text \<open>
  Claim C3: for every instance that has reached a terminal step, whatever events brought
  it there, a \<open>DispatchFailed\<close> signal leaves the snapshot returned by \<open>status()\<close>
  unchanged, and \<open>last_error\<close> in particular. A terminal step is assigned only right
  before \<open>run\<close> returns, so an instance in a terminal step is closed, and no handler runs
  on a closed workflow.
\<close>

theorem dispatch_failed_after_termination_is_dropped:
  assumes "terminal (i_wf (exec evs (start oid pid)))"
  shows "status (i_wf (step (Signals [SigDispatchFailed reason]) (exec evs (start oid pid)))) =
           status (i_wf (exec evs (start oid pid))) \<and>
         last_error (i_wf (step (Signals [SigDispatchFailed reason]) (exec evs (start oid pid)))) =
           last_error (i_wf (exec evs (start oid pid)))"
proof -
  have "well_placed (exec evs (start oid pid))"
    by (simp add: well_placed_exec well_placed_start)
  with assms obtain r where "i_phase (exec evs (start oid pid)) = Closed r"
    using terminal_is_closed by blast
  then have "step (Signals [SigDispatchFailed reason]) (exec evs (start oid pid)) =
      exec evs (start oid pid)"
    by (rule closed_ignores)
  then show ?thesis by simp
qed


text \<open>
  Witness for C3: scenario 5 of the specification, the signal reaches a parent that has
  completed; the snapshot still shows \<open>COMPLETED\<close> and no error.
\<close>

theorem dispatch_failed_after_termination_is_dropped_witness:
  "terminal (i_wf (exec completed_events (start ''O1'' ''P1''))) \<and>
   status (i_wf (step (Signals [SigDispatchFailed ''carrier unavailable''])
                   (exec completed_events (start ''O1'' ''P1'')))) =
     \<lparr>s_order_id = Some ''O1'', s_step = ''COMPLETED'', s_last_error = None\<rparr>"
proof -
  have f: "i_wf (exec completed_events (start ''O1'' ''P1'')) =
      \<lparr>order_id = Some ''O1'', current_step = ''COMPLETED'', approved = True, cancelled = False,
       last_error = None, address = None\<rparr>"
    by (simp add: completed_events_def order_O1_def instance_defs Approve_def Let_def)
  have h: "terminal (i_wf (exec completed_events (start ''O1'' ''P1'')))"
    by (simp add: f terminal_def terminal_steps_def)
  from dispatch_failed_after_termination_is_dropped [OF h, of "''carrier unavailable''"] h f show ?thesis
    by (simp add: status_def)
qed

section \<open>Store operations inside the charge activity\<close>

lemma charge_identified_charged:
  assumes "map_of (payments w) pid = Some row" and "pr_status row = ''CHARGED''"
  shows "gateway_calls (snd (charge_identified gw ord pid oid w)) = gateway_calls w \<and>
         payments (snd (charge_identified gw ord pid oid w)) = payments w \<and>
         (db_ok 2 w \<longrightarrow>
            fst (charge_identified gw ord pid oid w) = Inr (AlreadyCharged (pr_amount row)))"
proof (cases "db_faults w")
  case Nil
  with assms show ?thesis
    by (simp add: charge_identified_def store_defs db_ok_def)
next
  case (Cons f fs)
  show ?thesis
  proof (cases f)
    case (Some exc)
    with Cons assms show ?thesis
      by (simp add: charge_identified_def store_defs db_ok_def)
  next
    case None
    show ?thesis
    proof (cases fs)
      case Nil
      with Cons None assms show ?thesis
        by (simp add: charge_identified_def store_defs db_ok_def)
    next
      case (Cons f2 fs2)
      show ?thesis
      proof (cases f2)
        case (Some exc)
        with \<open>db_faults w = f # fs\<close> \<open>fs = f2 # fs2\<close> None assms show ?thesis
          by (simp add: charge_identified_def store_defs db_ok_def numeral_2_eq_2)
      next
        case n2: None
        with \<open>db_faults w = f # fs\<close> \<open>fs = f2 # fs2\<close> None assms show ?thesis
          by (cases fs2; cases "hd fs2")
            (simp_all add: charge_identified_def store_defs db_ok_def numeral_2_eq_2)
      qed
    qed
  qed
qed

lemma charge_activity_identified:
  assumes "payload_payment_id payload = Some pid" and "pid \<noteq> []"
    and "payload_order_id payload = Some oid" and "oid \<noteq> []"
  shows "charge_payment_activity gw payload w =
           charge_identified gw (payload_order payload) pid oid w"
  using assms by (simp add: charge_payment_activity_def payload_order_id_def Let_def)

lemma reject_missing:
  "payments (snd (reject_missing_identifiers p q w)) = payments w \<and>
   orders (snd (reject_missing_identifiers p q w)) = orders w \<and>
   gateway_calls (snd (reject_missing_identifiers p q w)) = gateway_calls w \<and>
   (db_ok 1 w \<longrightarrow>
      fst (reject_missing_identifiers p q w) = Inr (Failed p (missing_identifiers_error q p)) \<and>
      events (snd (reject_missing_identifiers p q w)) =
        events w @ [\<lparr>ev_order_id = py_or q ''unknown'', ev_type = ''PAYMENT_FAILED'',
                     ev_payload = [(''payment_id'', json_opt p),
                                   (''error'', JStr (missing_identifiers_error q p))]\<rparr>])"
proof (cases "db_faults w")
  case Nil
  then show ?thesis by (simp add: reject_missing_identifiers_def store_defs db_ok_def Let_def)
next
  case (Cons f fs)
  then show ?thesis
    by (cases f) (simp_all add: reject_missing_identifiers_def store_defs db_ok_def Let_def)
qed

lemma db_attempt_ok:
  "db_ok (Suc n) w \<Longrightarrow> fst (db_attempt w) = None \<and> db_ok n (snd (db_attempt w))"
  by (cases "db_faults w") (simp_all add: db_attempt_def db_ok_def)

lemma insert_payment_init_ok:
  assumes "db_ok (Suc n) w"
  shows "fst (insert_payment_init pid oid w) = Inr () \<and> db_ok n (snd (insert_payment_init pid oid w))"
proof -
  obtain w' where a: "db_attempt w = (None, w')" and b: "db_ok n w'"
    using db_attempt_ok [OF assms] by (cases "db_attempt w") auto
  from b have "db_ok n (case map_of (payments w') pid of
             Some row \<Rightarrow> w'
           | None \<Rightarrow>
               w'\<lparr>payments := payments w' @
                     [(pid, \<lparr>pr_order_id = oid, pr_status = ''INIT'', pr_amount = 0\<rparr>)]\<rparr>)"
    by (cases "map_of (payments w') pid") (simp_all add: db_ok_def)
  with a show ?thesis by (simp add: insert_payment_init_def)
qed

lemma ensure_payment_idempotent_ok:
  assumes "db_ok (Suc n) w"
  shows "\<exists>existing. fst (ensure_payment_idempotent pid w) = Inr existing"
proof -
  obtain w' where a: "db_attempt w = (None, w')"
    using db_attempt_ok [OF assms] by (cases "db_attempt w") auto
  then show ?thesis by (simp add: ensure_payment_idempotent_def)
qed

lemma charge_identified_returns:
  assumes "db_ok 2 w"
  shows "\<exists>r. fst (charge_identified gw ord pid oid w) = Inr r"
proof -
  from assms have ok2: "db_ok (Suc (Suc 0)) w" by (simp add: numeral_2_eq_2)
  obtain w1 where i: "insert_payment_init pid oid w = (Inr (), w1)" and ok1: "db_ok (Suc 0) w1"
    using insert_payment_init_ok [OF ok2, of pid oid]
    by (cases "insert_payment_init pid oid w") auto
  obtain existing w2 where r: "ensure_payment_idempotent pid w1 = (Inr existing, w2)"
    using ensure_payment_idempotent_ok [OF ok1, of pid]
    by (cases "ensure_payment_idempotent pid w1") auto
  show ?thesis
    using i r
    by (simp add: charge_identified_def split: option.splits prod.splits sum.splits)
qed

section \<open>Idempotent charge\<close>

text \<open>
  Claim C2 says that the second invocation returns \<open>already_charged\<close>. The reservation
  of line 62 and the read of line 64 come before the short circuit and are outside every
  \<open>try\<close>: on a store that fails after the first charge, the first invocation leaves the
  row \<open>CHARGED\<close> and the second one raises.
\<close>

theorem second_charge_raises_counterexample:
  "map_of (payments (snd (charge_payment_activity paying_gateway payload_O1 outage_world))) ''P1'' =
     Some \<lparr>pr_order_id = ''O1'', pr_status = ''CHARGED'', pr_amount = 42.5\<rparr> \<and>
   fst (charge_payment_activity paying_gateway payload_O1
          (snd (charge_payment_activity paying_gateway payload_O1 outage_world))) =
     Inl ''connection refused''"
proof -
  have w1: "snd (charge_payment_activity paying_gateway payload_O1 outage_world) =
      \<lparr>orders = [(''O1'', ''PAID'')],
       payments = [(''P1'', \<lparr>pr_order_id = ''O1'', pr_status = ''CHARGED'', pr_amount = 42.5\<rparr>)],
       events = [\<lparr>ev_order_id = ''O1'', ev_type = ''PAYMENT_CHARGED'',
                  ev_payload = [(''payment_id'', JStr ''P1''),
                    (''result'', JObj [(''status'', JStr ''charged''), (''amount'', JNum 42.5)])]\<rparr>],
       db_faults = [Some ''connection refused''], gateway_calls = [(order_O1, ''P1'')]\<rparr>"
    by (simp add: outage_world_def payload_O1_def order_O1_def activity_defs Let_def)
  show ?thesis
    unfolding w1 by (simp add: payload_O1_def order_O1_def activity_defs Let_def)
qed

text \<open>
  Claim C2 as amended: let a first invocation of \<open>charge_payment_activity\<close> leave the row
  of payment \<open>pid\<close> with status \<open>CHARGED\<close>. A second invocation for the same payload does
  not invoke the gateway and leaves the row as it is, whatever the store does; when the
  reservation and the read of the row succeed, it returns \<open>already_charged\<close> with the
  amount of the row.
\<close>

theorem charged_payment_short_circuits:
  assumes "payload_payment_id payload = Some pid" and "pid \<noteq> []"
    and "payload_order_id payload = Some oid" and "oid \<noteq> []"
    and "w1 = snd (charge_payment_activity gw1 payload w0)"
    and "map_of (payments w1) pid = Some row" and "pr_status row = ''CHARGED''"
  shows "gateway_calls (snd (charge_payment_activity gw2 payload w1)) = gateway_calls w1 \<and>
         map_of (payments (snd (charge_payment_activity gw2 payload w1))) pid = Some row \<and>
         (db_ok 2 w1 \<longrightarrow>
            fst (charge_payment_activity gw2 payload w1) = Inr (AlreadyCharged (pr_amount row)))"
  using charge_identified_charged [OF assms(6,7), of gw2 "payload_order payload" oid]
    assms(6) charge_activity_identified [OF assms(1-4)]
  by simp

text \<open>
  Witness for the amended C2: scenario 2 of the specification, a payment charged twice on
  a store that works; the gateway is invoked once.
\<close>

theorem charged_payment_short_circuits_witness:
  "payload_payment_id payload_O1 = Some ''P1'' \<and> payload_order_id payload_O1 = Some ''O1'' \<and>
   map_of (payments (snd (charge_payment_activity paying_gateway payload_O1 empty_world))) ''P1'' =
     Some \<lparr>pr_order_id = ''O1'', pr_status = ''CHARGED'', pr_amount = 42.5\<rparr> \<and>
   db_ok 2 (snd (charge_payment_activity paying_gateway payload_O1 empty_world)) \<and>
   fst (charge_payment_activity paying_gateway payload_O1
          (snd (charge_payment_activity paying_gateway payload_O1 empty_world))) =
     Inr (AlreadyCharged 42.5) \<and>
   gateway_calls (snd (charge_payment_activity paying_gateway payload_O1
          (snd (charge_payment_activity paying_gateway payload_O1 empty_world)))) =
     [(order_O1, ''P1'')]"
proof -
  define w1 where "w1 = snd (charge_payment_activity paying_gateway payload_O1 empty_world)"
  have w1: "w1 = \<lparr>orders = [(''O1'', ''PAID'')],
                  payments = [(''P1'', \<lparr>pr_order_id = ''O1'', pr_status = ''CHARGED'',
                                        pr_amount = 42.5\<rparr>)],
                  events = [\<lparr>ev_order_id = ''O1'', ev_type = ''PAYMENT_CHARGED'',
                             ev_payload = [(''payment_id'', JStr ''P1''),
                               (''result'', JObj [(''status'', JStr ''charged''),
                                                  (''amount'', JNum 42.5)])]\<rparr>],
                  db_faults = [], gateway_calls = [(order_O1, ''P1'')]\<rparr>"
    by (simp add: w1_def payload_O1_def order_O1_def activity_defs Let_def)
  have p: "payload_payment_id payload_O1 = Some ''P1''" "payload_order_id payload_O1 = Some ''O1''"
    by (simp_all add: payload_O1_def order_O1_def activity_defs)
  have row: "map_of (payments w1) ''P1'' =
     Some \<lparr>pr_order_id = ''O1'', pr_status = ''CHARGED'', pr_amount = 42.5\<rparr>"
    by (simp add: w1)
  have ok: "db_ok 2 w1" by (simp add: w1 db_ok_def)
  have g: "gateway_calls w1 = [(order_O1, ''P1'')]" by (simp add: w1)
  from charged_payment_short_circuits [OF p(1) _ p(2) _ w1_def row, of paying_gateway] ok g p row
  show ?thesis unfolding w1_def by simp
qed

section \<open>Missing identifiers\<close>

text \<open>\<open>repr\<close> on identifiers with quotes, a backslash and a control character.\<close>

lemma repr_str_examples:
  "repr_str ''O1'' = [CHR 0x27, CHR ''O'', CHR ''1'', CHR 0x27]"
  "repr_str [CHR ''O'', CHR 0x27, CHR ''1''] = [CHR 0x22, CHR ''O'', CHR 0x27, CHR ''1'', CHR 0x22]"
  "repr_str [CHR 0x27, CHR 0x22] = [CHR 0x27, CHR 0x5C, CHR 0x27, CHR 0x22, CHR 0x27]"
  "repr_str [CHR 0x5C, CHR 0x0A, CHR 0x01] =
     [CHR 0x27, CHR 0x5C, CHR 0x5C, CHR 0x5C, CHR ''n'', CHR 0x5C, CHR ''x'', CHR ''0'', CHR ''1'',
      CHR 0x27]"
  by (simp_all add: repr_defs Let_def)


text \<open>
  Claim C8 says that the activity returns the failure result and appends one audit event.
  The audit insert of line 58 is outside every \<open>try\<close>: on a store whose next operation
  raises, the activity raises and no event is written.
\<close>

theorem missing_identifier_audit_fault_counterexample:
  "\<not> truthy (payload_payment_id payload_no_payment) \<and>
   fst (charge_payment_activity paying_gateway payload_no_payment broken_world) =
     Inl ''connection refused'' \<and>
   events (snd (charge_payment_activity paying_gateway payload_no_payment broken_world)) = []"
  by (simp add: payload_no_payment_def order_O1_def broken_world_def activity_defs Let_def)

text \<open>
  Claim C8 as amended: when the payment identifier or the order identifier of the payload
  is missing or empty, the activity leaves the payments table and the gateway untouched,
  whatever the store does; when the audit insert succeeds, it returns the failure result
  with status \<open>failed\<close> and the event log has grown by exactly one \<open>PAYMENT_FAILED\<close>
  event.
\<close>

theorem missing_identifiers_rejected:
  assumes "\<not> truthy (payload_payment_id payload) \<or> \<not> truthy (payload_order_id payload)"
  shows "payments (snd (charge_payment_activity gw payload w)) = payments w \<and>
         gateway_calls (snd (charge_payment_activity gw payload w)) = gateway_calls w \<and>
         (db_ok 1 w \<longrightarrow>
            fst (charge_payment_activity gw payload w) =
              Inr (Failed (payload_payment_id payload)
                     (missing_identifiers_error (payload_order_id payload)
                        (payload_payment_id payload))) \<and>
            result_status (Failed (payload_payment_id payload)
                     (missing_identifiers_error (payload_order_id payload)
                        (payload_payment_id payload))) = ''failed'' \<and>
            events (snd (charge_payment_activity gw payload w)) =
              events w @ [\<lparr>ev_order_id = py_or (payload_order_id payload) ''unknown'',
                           ev_type = ''PAYMENT_FAILED'',
                           ev_payload =
                             [(''payment_id'', json_opt (payload_payment_id payload)),
                              (''error'', JStr (missing_identifiers_error
                                 (payload_order_id payload) (payload_payment_id payload)))]\<rparr>])"
proof -
  have "charge_payment_activity gw payload w =
          reject_missing_identifiers (payload_payment_id payload) (payload_order_id payload) w"
    using assms by (auto simp: charge_payment_activity_def payload_order_id_def Let_def)
  with reject_missing [of "payload_payment_id payload" "payload_order_id payload" w]
  show ?thesis by simp
qed

text \<open>
  Witness for the amended C8: a payload without a payment identifier, on an empty store.
\<close>

theorem missing_identifiers_rejected_witness:
  "\<not> truthy (payload_payment_id payload_no_payment) \<and>
   db_ok 1 empty_world \<and>
   fst (charge_payment_activity paying_gateway payload_no_payment empty_world) =
     Inr (Failed None (''missing identifiers (order_id='' @ [CHR 0x27] @ ''O1'' @ [CHR 0x27] @
                       '', payment_id=None)'')) \<and>
   length (events (snd (charge_payment_activity paying_gateway payload_no_payment empty_world))) = 1 \<and>
   payments (snd (charge_payment_activity paying_gateway payload_no_payment empty_world)) = []"
proof -
  have h: "\<not> truthy (payload_payment_id payload_no_payment) \<or>
    \<not> truthy (payload_order_id payload_no_payment)"
    by (simp add: payload_no_payment_def activity_defs)
  have ok: "db_ok 1 empty_world"
    by (simp add: db_ok_def empty_world_def)
  have p: "payload_payment_id payload_no_payment = None"
    "payload_order_id payload_no_payment = Some ''O1''"
    by (simp_all add: payload_no_payment_def order_O1_def activity_defs)
  have e: "events empty_world = []" "payments empty_world = []"
    by (simp_all add: empty_world_def)
  have r: "repr_str ''O1'' = [CHR 0x27] @ ''O1'' @ [CHR 0x27]"
    by (simp add: repr_defs Let_def)
  from missing_identifiers_rejected [OF h, of paying_gateway empty_world] h ok p e r show ?thesis
    by (simp add: missing_identifiers_error_def)
qed

section \<open>Results and faults of the charge activity\<close>

text \<open>
  Claim C9 says that the activity never raises, whatever the outcome of the ledger and
  audit writes inside it. The reservation of line 62 is outside every \<open>try\<close>: on a
  store whose next operation raises, the activity raises.
\<close>

theorem reservation_fault_propagates_counterexample:
  "fst (charge_payment_activity paying_gateway payload_O1 broken_world) = Inl ''connection refused''"
  by (simp add: payload_O1_def order_O1_def broken_world_def activity_defs Let_def)

text \<open>
  Claim C9 as amended: when the store operations made before the charge decision go
  through (the audit insert if an identifier is missing, the reservation and the read of
  the row otherwise), the activity returns a result with status \<open>charged\<close>,
  \<open>already_charged\<close> or \<open>failed\<close>, whatever the gateway does and whatever becomes of
  every later write.
\<close>

theorem structured_result_after_reservation:
  assumes "db_ok (if \<not> truthy (payload_payment_id payload) \<or> \<not> truthy (payload_order_id payload)
                  then 1 else 2) w"
  shows "\<exists>r. fst (charge_payment_activity gw payload w) = Inr r \<and>
             result_status r \<in> {''charged'', ''already_charged'', ''failed''}"
proof -
  have st: "\<And>r. result_status r \<in> {''charged'', ''already_charged'', ''failed''}"
  proof -
    fix r show "result_status r \<in> {''charged'', ''already_charged'', ''failed''}"
      by (cases r) simp_all
  qed
  have "\<exists>r. fst (charge_payment_activity gw payload w) = Inr r"
  proof (cases "\<not> truthy (payload_payment_id payload) \<or> \<not> truthy (payload_order_id payload)")
    case True
    with assms have ok: "db_ok 1 w" by simp
    have "charge_payment_activity gw payload w =
          reject_missing_identifiers (payload_payment_id payload) (payload_order_id payload) w"
      using True by (auto simp: charge_payment_activity_def payload_order_id_def Let_def)
    with reject_missing [of "payload_payment_id payload" "payload_order_id payload" w] ok
    show ?thesis by simp
  next
    case False
    with assms have ok: "db_ok 2 w" by simp
    from False have "charge_payment_activity gw payload w =
        charge_identified gw (payload_order payload) (py_or (payload_payment_id payload) [])
          (py_or (payload_order_id payload) []) w"
      by (auto simp: charge_payment_activity_def payload_order_id_def Let_def)
    with charge_identified_returns [OF ok] show ?thesis by simp
  qed
  with st show ?thesis by blast
qed

text \<open>
  Witness for C9: the gateway charges, then every write after the reservation and the
  read raises; the activity returns a failure result.
\<close>

theorem structured_result_after_reservation_witness:
  "db_ok (if \<not> truthy (payload_payment_id payload_O1) \<or> \<not> truthy (payload_order_id payload_O1)
          then 1 else 2) flaky_world \<and>
   fst (charge_payment_activity paying_gateway payload_O1 flaky_world) =
     Inr (Failed (Some ''P1'') ''db down'')"
proof -
  have h: "db_ok (if \<not> truthy (payload_payment_id payload_O1) \<or> \<not> truthy (payload_order_id payload_O1)
          then 1 else 2) flaky_world"
    by (simp add: payload_O1_def order_O1_def flaky_world_def db_ok_def activity_defs)
  have v: "fst (charge_payment_activity paying_gateway payload_O1 flaky_world) =
     Inr (Failed (Some ''P1'') ''db down'')"
    by (simp add: payload_O1_def order_O1_def flaky_world_def activity_defs Let_def)
  from structured_result_after_reservation [OF h, of paying_gateway] h v show ?thesis by simp
qed

end
